theory Spec2Isabelle
  imports
    Complex_Main
    "HOL-Library.AList"
    "HOL-Library.Char_ord"
    "HOL-Library.List_Lexorder"
    "HOL-Library.Product_Lexorder"
begin

section \<open>Numbers\<close>

text \<open>
  The backtesters compute with binary floating point (Python \<^verbatim>\<open>float\<close>, numpy
  \<^verbatim>\<open>float64\<close>).  The embedding keeps the special values that steer the control flow
  of the code (\<^verbatim>\<open>nan\<close>, \<^verbatim>\<open>inf\<close>, \<^verbatim>\<open>-inf\<close>) and computes the finite values
  exactly, as real numbers: rounding, overflow and the sign of zero are not modelled.
  numpy arithmetic never raises (a division by zero gives \<^verbatim>\<open>inf\<close> or \<^verbatim>\<open>nan\<close>);
  the division of two Python floats raises \<^verbatim>\<open>ZeroDivisionError\<close>.
\<close>

datatype npfloat = Fin real | PInf | NInf | NaN

fun np_neg :: "npfloat \<Rightarrow> npfloat" where
  "np_neg (Fin x) = Fin (- x)"
| "np_neg PInf = NInf"
| "np_neg NInf = PInf"
| "np_neg NaN = NaN"

fun np_add :: "npfloat \<Rightarrow> npfloat \<Rightarrow> npfloat" where
  "np_add NaN _ = NaN"
| "np_add _ NaN = NaN"
| "np_add (Fin x) (Fin y) = Fin (x + y)"
| "np_add PInf NInf = NaN"
| "np_add NInf PInf = NaN"
| "np_add PInf _ = PInf"
| "np_add _ PInf = PInf"
| "np_add NInf _ = NInf"
| "np_add _ NInf = NInf"

definition np_sub :: "npfloat \<Rightarrow> npfloat \<Rightarrow> npfloat" where
  "np_sub a b = np_add a (np_neg b)"

text \<open>The sign of a value that is not \<^verbatim>\<open>nan\<close>: \<open>1\<close>, \<open>0\<close> or \<open>-1\<close>.\<close>

fun np_sign :: "npfloat \<Rightarrow> int" where
  "np_sign (Fin x) = (if 0 < x then 1 else if x < 0 then - 1 else 0)"
| "np_sign PInf = 1"
| "np_sign NInf = - 1"
| "np_sign NaN = 0"

definition inf_of_sign :: "int \<Rightarrow> npfloat" where
  "inf_of_sign s = (if 0 < s then PInf else if s < 0 then NInf else NaN)"

fun np_mul :: "npfloat \<Rightarrow> npfloat \<Rightarrow> npfloat" where
  "np_mul NaN _ = NaN"
| "np_mul _ NaN = NaN"
| "np_mul (Fin x) (Fin y) = Fin (x * y)"
| "np_mul a b = inf_of_sign (np_sign a * np_sign b)"

fun np_div :: "npfloat \<Rightarrow> npfloat \<Rightarrow> npfloat" where
  "np_div NaN _ = NaN"
| "np_div _ NaN = NaN"
| "np_div (Fin x) (Fin y) = (if y = 0 then inf_of_sign (np_sign (Fin x)) else Fin (x / y))"
| "np_div (Fin x) _ = Fin 0"
| "np_div a (Fin y) = inf_of_sign (np_sign a * (if y < 0 then - 1 else 1))"
| "np_div _ _ = NaN"

fun np_sqrt :: "npfloat \<Rightarrow> npfloat" where
  "np_sqrt (Fin x) = (if x < 0 then NaN else Fin (sqrt x))"
| "np_sqrt PInf = PInf"
| "np_sqrt _ = NaN"

text \<open>Comparisons: every comparison with \<^verbatim>\<open>nan\<close> is false.\<close>

fun np_le :: "npfloat \<Rightarrow> npfloat \<Rightarrow> bool" where
  "np_le NaN _ = False"
| "np_le _ NaN = False"
| "np_le (Fin x) (Fin y) = (x \<le> y)"
| "np_le NInf _ = True"
| "np_le _ PInf = True"
| "np_le _ _ = False"

definition np_ge :: "npfloat \<Rightarrow> npfloat \<Rightarrow> bool" where
  "np_ge a b = np_le b a"

definition np_lt :: "npfloat \<Rightarrow> npfloat \<Rightarrow> bool" where
  "np_lt a b = (np_le a b \<and> a \<noteq> b)"

definition np_gt :: "npfloat \<Rightarrow> npfloat \<Rightarrow> bool" where
  "np_gt a b = np_lt b a"

definition np_eq :: "npfloat \<Rightarrow> npfloat \<Rightarrow> bool" where
  "np_eq a b = (a \<noteq> NaN \<and> a = b)"

text \<open>
  pandas reductions skip \<^verbatim>\<open>nan\<close> (\<^verbatim>\<open>skipna=True\<close>): \<^verbatim>\<open>Series.sum\<close>,
  \<^verbatim>\<open>Series.mean\<close> (\<^verbatim>\<open>nan\<close> when nothing is left) and \<^verbatim>\<open>Series.std\<close> (the sample
  standard deviation, \<^verbatim>\<open>ddof=1\<close>; \<^verbatim>\<open>nan\<close> with fewer than two values).
\<close>

definition dropna :: "npfloat list \<Rightarrow> npfloat list" where
  "dropna xs = filter (\<lambda>x. x \<noteq> NaN) xs"

definition np_sum :: "npfloat list \<Rightarrow> npfloat" where
  "np_sum xs = foldl np_add (Fin 0) xs"

definition series_sum :: "npfloat list \<Rightarrow> npfloat" where
  "series_sum xs = np_sum (dropna xs)"

definition series_mean :: "npfloat list \<Rightarrow> npfloat" where
  "series_mean xs =
     (let ys = dropna xs in
      if ys = [] then NaN else np_div (np_sum ys) (Fin (real (length ys))))"

definition series_std :: "npfloat list \<Rightarrow> npfloat" where
  "series_std xs =
     (let ys = dropna xs; n = length ys in
      if n < 2 then NaN
      else
        let m = np_div (np_sum ys) (Fin (real n));
            sq = map (\<lambda>y. np_mul (np_sub y m) (np_sub y m)) ys
        in np_sqrt (np_div (np_sum sq) (Fin (real (n - 1)))))"

section \<open>Data model\<close>

text \<open>
  A \<^verbatim>\<open>Timestamp\<close> is the number of nanoseconds since the epoch, as pandas stores it;
  \<^verbatim>\<open>(b - a).days\<close> is the floor of the difference in days.
\<close>

type_synonym timestamp = int

definition ns_per_day :: int where
  "ns_per_day = 86400000000000"

definition td_days :: "int \<Rightarrow> int" where
  "td_days delta = delta div ns_per_day"

text \<open>
  One row of the price table after the loaders have renamed the columns
  (\<^verbatim>\<open>ticker\<close> to \<^verbatim>\<open>symbol\<close>, \<^verbatim>\<open>openprice\<close> to \<^verbatim>\<open>open\<close>, \<^verbatim>\<open>closeprice\<close> to
  \<^verbatim>\<open>close\<close>).  Prices are finite numbers: rows with a missing price are dropped by
  the portfolio loader, and are outside the model of the single-instrument one.
\<close>

record price_row =
  date :: timestamp
  symbol :: string
  open_price :: real
  close :: real
  sector :: string

text \<open>The values stored in a trade dictionary, and the exceptions the code can raise.\<close>

datatype pyval = PStr string | PTime timestamp | PFloat npfloat | PInt int

type_synonym pydict = "(string \<times> pyval) list"

datatype error = ValueError | ZeroDivisionError | TypeError | KeyError

text \<open>\<^verbatim>\<open>str.upper\<close> and \<^verbatim>\<open>str.lower\<close>, on ASCII letters.\<close>

definition upper_char :: "char \<Rightarrow> char" where
  "upper_char c =
     (if CHR ''a'' \<le> c \<and> c \<le> CHR ''z'' then char_of (of_char c - (32::nat)) else c)"

definition lower_char :: "char \<Rightarrow> char" where
  "lower_char c =
     (if CHR ''A'' \<le> c \<and> c \<le> CHR ''Z'' then char_of (of_char c + (32::nat)) else c)"

definition str_upper :: "string \<Rightarrow> string" where
  "str_upper s = map upper_char s"

definition str_lower :: "string \<Rightarrow> string" where
  "str_lower s = map lower_char s"

text \<open>
  \<^verbatim>\<open>Series.shift(p)\<close>: the value \<open>p\<close> rows earlier (later, for a negative \<open>p\<close>),
  \<^verbatim>\<open>nan\<close> where there is none; \<^verbatim>\<open>Series.pct_change(periods=p)\<close> is
  \<^verbatim>\<open>x / x.shift(p) - 1\<close>.
\<close>

definition series_shift :: "int \<Rightarrow> npfloat list \<Rightarrow> npfloat list" where
  "series_shift p xs =
     map (\<lambda>i. let j = int i - p in
               if 0 \<le> j \<and> j < int (length xs) then xs ! nat j else NaN)
         [0..<length xs]"

definition pct_change :: "int \<Rightarrow> npfloat list \<Rightarrow> npfloat list" where
  "pct_change p xs =
     map (\<lambda>(x, y). np_sub (np_div x y) (Fin 1)) (zip xs (series_shift p xs))"

section \<open>Single-instrument backtester\<close>

text \<open>
  The strategy dictionary of \<^verbatim>\<open>Backtester.run\<close>.  For \<^verbatim>\<open>period_days\<close>,
  \<^verbatim>\<open>stop_loss\<close> and \<^verbatim>\<open>take_profit\<close> the code treats an absent key and the value
  \<^verbatim>\<open>None\<close> alike, so they are options; \<^verbatim>\<open>stop_loss\<close> and \<^verbatim>\<open>take_profit\<close> are read
  from the condition of the exit rule.  For \<^verbatim>\<open>threshold\<close> and \<^verbatim>\<open>direction\<close> the default
  of \<^verbatim>\<open>dict.get\<close> applies to an absent key only; a key that holds \<^verbatim>\<open>None\<close> (as the
  parser writes it when the text names no threshold or direction) gives \<^verbatim>\<open>None\<close>.
\<close>

datatype 'a dict_value = Absent | PyNone | Given 'a

definition get_default :: "'a dict_value \<Rightarrow> 'a \<Rightarrow> 'a option" where
  "get_default v dflt = (case v of Absent \<Rightarrow> Some dflt | PyNone \<Rightarrow> None | Given x \<Rightarrow> Some x)"

record condition =
  period_days :: "int option"
  threshold :: "real dict_value"
  direction :: "string dict_value"
  stop_loss :: "real option"
  take_profit :: "real option"

record rule =
  action :: string
  rule_symbol :: "string option"
  condition :: condition

record strategy =
  entry :: rule
  exit :: "rule option"

text \<open>The columns that the simulation loop reads from a row of the data frame.\<close>

record sig_row =
  row_date :: timestamp
  row_close :: real
  entry_signal :: bool
  exit_signal :: bool
  exit_reason_base :: bool
  exit_reason_sl :: bool
  exit_reason_tp :: bool

text \<open>\<^verbatim>\<open>int(cond.get("period_days") or 3)\<close>: an absent period, or the period 0, is 3.\<close>

definition period_of :: "condition \<Rightarrow> int" where
  "period_of c = (case period_days c of None \<Rightarrow> 3 | Some p \<Rightarrow> if p = 0 then 3 else p)"

text \<open>
  The entry column.  With the direction \<^verbatim>\<open>down\<close> the code negates the threshold,
  which raises \<^verbatim>\<open>TypeError\<close> for \<^verbatim>\<open>None\<close>; with \<^verbatim>\<open>up\<close> it compares the series
  with the threshold, and pandas answers a comparison of a numeric series with
  \<^verbatim>\<open>None\<close> by \<^verbatim>\<open>False\<close> in every row; any other direction, \<^verbatim>\<open>None\<close> included,
  never signals.
\<close>

definition entry_signals :: "condition \<Rightarrow> real list \<Rightarrow> error + bool list" where
  "entry_signals econd closes =
     (let e_period = period_of econd;
          e_thr = get_default (threshold econd) (5 / 100);
          e_dir = get_default (direction econd) ''down'';
          entry_change = pct_change e_period (map Fin closes)
      in if e_dir = Some ''down'' then
           (case e_thr of
              None \<Rightarrow> Inl TypeError
            | Some t \<Rightarrow> Inr (map (\<lambda>c. np_le c (Fin (- t))) entry_change))
         else if e_dir = Some ''up'' then
           (case e_thr of
              None \<Rightarrow> Inr (map (\<lambda>c. False) entry_change)
            | Some t \<Rightarrow> Inr (map (\<lambda>c. np_ge c (Fin t)) entry_change))
         else Inr (map (\<lambda>c. False) entry_change))"

text \<open>
  The three exit columns \<^verbatim>\<open>base_exit\<close>, \<^verbatim>\<open>sl_exit\<close> and \<^verbatim>\<open>tp_exit\<close>, row by row;
  the base column follows the same rules as the entry column.
\<close>

definition exit_signals ::
  "rule option \<Rightarrow> real list \<Rightarrow> error + (bool \<times> bool \<times> bool) list" where
  "exit_signals exit_rule closes =
     (case exit_rule of
        None \<Rightarrow> Inr (map (\<lambda>c. (False, False, False)) closes)
      | Some xr \<Rightarrow>
          let xcond = condition xr;
              x_period = period_of xcond;
              x_thr = get_default (threshold xcond) (3 / 100);
              x_dir = get_default (direction xcond) ''up'';
              exit_change = pct_change x_period (map Fin closes);
              sl_exit = (\<lambda>c. case stop_loss xcond of
                                 None \<Rightarrow> False | Some sl \<Rightarrow> np_le c (Fin (- sl)));
              tp_exit = (\<lambda>c. case take_profit xcond of
                                 None \<Rightarrow> False | Some tp \<Rightarrow> np_ge c (Fin tp));
              columns = (\<lambda>base_exit. map (\<lambda>c. (base_exit c, sl_exit c, tp_exit c)) exit_change)
          in if x_dir = Some ''down'' then
               (case x_thr of
                  None \<Rightarrow> Inl TypeError
                | Some t \<Rightarrow> Inr (columns (\<lambda>c. np_le c (Fin (- t)))))
             else if x_dir = Some ''up'' then
               (case x_thr of
                  None \<Rightarrow> Inr (columns (\<lambda>c. False))
                | Some t \<Rightarrow> Inr (columns (\<lambda>c. np_ge c (Fin t))))
             else Inr (columns (\<lambda>c. False)))"

text \<open>The rows of the data frame with their signal columns, as the loop reads them.\<close>

definition make_rows ::
  "price_row list \<Rightarrow> bool list \<Rightarrow> (bool \<times> bool \<times> bool) list \<Rightarrow> sig_row list" where
  "make_rows df es xs =
     map (\<lambda>(r, e, (b, sl, tp)).
            \<lparr>row_date = date r, row_close = close r, entry_signal = e,
             exit_signal = (b \<or> sl \<or> tp), exit_reason_base = b,
             exit_reason_sl = sl, exit_reason_tp = tp\<rparr>)
         (zip df (zip es xs))"

definition signal_rows :: "strategy \<Rightarrow> price_row list \<Rightarrow> error + sig_row list" where
  "signal_rows s df =
     (let closes = map close df in
      case entry_signals (condition (entry s)) closes of
        Inl e \<Rightarrow> Inl e
      | Inr es \<Rightarrow>
          (case exit_signals (exit s) closes of
             Inl e \<Rightarrow> Inl e
           | Inr xs \<Rightarrow> Inr (make_rows df es xs)))"

text \<open>
  The local variables of the simulation loop.  \<^verbatim>\<open>None\<close> in \<^verbatim>\<open>entry_idx\<close>,
  \<^verbatim>\<open>entry_price\<close> and \<^verbatim>\<open>entry_date\<close> is \<open>None\<close>; \<open>positions_list\<close> is the list
  \<^verbatim>\<open>positions\<close> of the position held at the end of each row.
\<close>

record sim =
  position :: int
  positions_list :: "int list"
  ledger :: "pydict list"
  entry_idx :: "nat option"
  sim_entry_price :: "real option"
  sim_entry_date :: "timestamp option"
  side :: int

definition sim_init :: sim where
  "sim_init = \<lparr>position = 0, positions_list = [], ledger = [], entry_idx = None,
               sim_entry_price = None, sim_entry_date = None, side = 0\<rparr>"

definition exit_reason_of :: "sig_row \<Rightarrow> string" where
  "exit_reason_of r =
     (if exit_reason_tp r then ''take_profit''
      else if exit_reason_sl r then ''stop_loss''
      else ''rule_exit'')"

definition ledger_entry ::
  "string \<Rightarrow> int \<Rightarrow> timestamp \<Rightarrow> real \<Rightarrow> timestamp \<Rightarrow> real \<Rightarrow> string \<Rightarrow> pydict" where
  "ledger_entry tkr sd e_date e_price x_date x_price reason =
     [(''symbol'', PStr tkr),
      (''side'', PStr (if sd = 1 then ''long'' else ''short'')),
      (''entry_date'', PTime e_date),
      (''entry_price'', PFloat (Fin e_price)),
      (''exit_date'', PTime x_date),
      (''exit_price'', PFloat (Fin x_price)),
      (''return'', PFloat (np_mul (np_sub (np_div (Fin x_price) (Fin e_price)) (Fin 1))
                                   (Fin (real_of_int sd)))),
      (''holding_days'', PInt (td_days (x_date - e_date))),
      (''exit_reason'', PStr reason)]"

text \<open>
  One iteration of \<^verbatim>\<open>for i in range(len(df))\<close>: the entry branch, \<^verbatim>\<open>elif\<close> the
  exit branch, then \<^verbatim>\<open>positions.append(position)\<close>.  Arithmetic on \<^verbatim>\<open>None\<close> would
  raise \<^verbatim>\<open>TypeError\<close>.
\<close>

definition log_position :: "sim \<Rightarrow> sim" where
  "log_position st = st\<lparr>positions_list := positions_list st @ [position st]\<rparr>"

definition step :: "string \<Rightarrow> string \<Rightarrow> sim \<Rightarrow> nat \<times> sig_row \<Rightarrow> error + sim" where
  "step tkr act st ir =
     (let i = fst ir; r = snd ir; price = row_close r; d = row_date r in
      if position st = 0 \<and> entry_signal r then
        let sd = (if act = ''buy'' then 1 else - 1) in
        Inr (log_position
               (st\<lparr>side := sd, position := sd, entry_idx := Some i,
                   sim_entry_price := Some price, sim_entry_date := Some d\<rparr>))
      else if position st \<noteq> 0 then
        (if exit_signal r then
           (case (sim_entry_price st, sim_entry_date st) of
              (Some e_price, Some e_date) \<Rightarrow>
                Inr (log_position
                       (st\<lparr>ledger := ledger st @
                              [ledger_entry tkr (side st) e_date e_price d price
                                 (exit_reason_of r)],
                           position := 0, entry_idx := None, sim_entry_price := None,
                           sim_entry_date := None, side := 0\<rparr>))
            | _ \<Rightarrow> Inl TypeError)
         else Inr (log_position st))
      else Inr (log_position st))"

fun simulate :: "string \<Rightarrow> string \<Rightarrow> sim \<Rightarrow> (nat \<times> sig_row) list \<Rightarrow> error + sim" where
  "simulate tkr act st [] = Inr st"
| "simulate tkr act st (ir # irs) =
     (case step tkr act st ir of
        Inl e \<Rightarrow> Inl e
      | Inr st' \<Rightarrow> simulate tkr act st' irs)"

text \<open>
  \<^verbatim>\<open>_load_and_validate_data\<close> of the single-instrument backtester, on the rows that
  have a valid date: of the rows with the same symbol and date the first is kept
  (\<^verbatim>\<open>drop_duplicates\<close>), and the table is sorted by symbol, then date.  Symbols are
  compared as they are written: \<open>ABC\<close> and \<open>abc\<close> are two symbols here.
\<close>

fun drop_duplicates_from ::
  "(string \<times> timestamp) list \<Rightarrow> price_row list \<Rightarrow> price_row list" where
  "drop_duplicates_from seen [] = []"
| "drop_duplicates_from seen (r # rs) =
     (if (symbol r, date r) \<in> set seen then drop_duplicates_from seen rs
      else r # drop_duplicates_from ((symbol r, date r) # seen) rs)"

definition load_and_validate_data :: "price_row list \<Rightarrow> price_row list" where
  "load_and_validate_data rows =
     sort_key (\<lambda>r. (symbol r, date r)) (drop_duplicates_from [] rows)"

text \<open>
  \<^verbatim>\<open>Backtester.run\<close> on the loaded table \<open>data\<close>: the rows whose symbol in upper case
  is the symbol of the strategy, the signal columns, the loop.  The result is the final
  state of the loop, with the ledger.
\<close>

definition strategy_symbol :: "strategy \<Rightarrow> string" where
  "strategy_symbol s = str_upper (case rule_symbol (entry s) of None \<Rightarrow> [] | Some x \<Rightarrow> x)"

definition symbol_rows :: "string \<Rightarrow> price_row list \<Rightarrow> price_row list" where
  "symbol_rows tkr data = filter (\<lambda>r. str_upper (symbol r) = tkr) data"

definition run :: "price_row list \<Rightarrow> strategy \<Rightarrow> error + sim" where
  "run data s =
     (let tkr = strategy_symbol s in
      if tkr = [] then Inl ValueError
      else
        let df = symbol_rows tkr data in
        if df = [] then Inl ValueError
        else
          (case signal_rows s df of
             Inl e \<Rightarrow> Inl e
           | Inr rows \<Rightarrow>
               simulate tkr (action (entry s)) sim_init (zip [0..<length rows] rows)))"

section \<open>Portfolio backtester\<close>

text \<open>
  \<^verbatim>\<open>_load_and_prepare_data\<close>, on the rows that survive \<^verbatim>\<open>dropna\<close> (those with a
  date, a symbol, an open and a close): the table is sorted by symbol, then date (a
  stable sort), and the sector is put in lower case.  Reading the file, renaming the
  columns and the default sector of a file without that column are left to the caller.
\<close>

definition load_and_prepare_data :: "price_row list \<Rightarrow> price_row list" where
  "load_and_prepare_data rows =
     map (\<lambda>r. r\<lparr>sector := str_lower (sector r)\<rparr>)
         (sort_key (\<lambda>r. (symbol r, date r)) rows)"

text \<open>The arguments of \<^verbatim>\<open>run_sector_strategy\<close>, with \<^verbatim>\<open>self.starting_capital\<close>.\<close>

record params =
  starting_capital :: real
  sector_name :: string
  drop_pct :: real
  lookback_days :: int
  allocation_per_trade :: real
  pf_stop_loss :: real
  pf_take_profit :: real

text \<open>
  \<^verbatim>\<open>x.shift(1).rolling(n, min_periods=1).max()\<close>: at each row, the maximum of the
  values of the last \<open>n\<close> rows of the shifted series that are not \<^verbatim>\<open>nan\<close>, and
  \<^verbatim>\<open>nan\<close> when there is none.
\<close>

definition np_max :: "npfloat \<Rightarrow> npfloat \<Rightarrow> npfloat" where
  "np_max a b = (if np_le a b then b else a)"

definition rolling_max :: "nat \<Rightarrow> npfloat list \<Rightarrow> npfloat list" where
  "rolling_max n xs =
     map (\<lambda>i. case dropna (drop (Suc i - n) (take (Suc i) xs)) of
                 [] \<Rightarrow> NaN
               | y # ys \<Rightarrow> foldl np_max y ys)
         [0..<length xs]"

definition trailing_high_series :: "nat \<Rightarrow> real list \<Rightarrow> npfloat list" where
  "trailing_high_series n closes = rolling_max n (series_shift 1 (map Fin closes))"

text \<open>
  \<^verbatim>\<open>df.groupby("symbol")["close"].transform(f)\<close>: \<open>f\<close> is applied to the closes of
  each symbol, in the order of the table, and each row receives the value at its place
  in the series of its symbol.
\<close>

definition groupby_transform ::
  "(real list \<Rightarrow> npfloat list) \<Rightarrow> price_row list \<Rightarrow> npfloat list" where
  "groupby_transform f df =
     map (\<lambda>k. let s = symbol (df ! k) in
               f (map close (filter (\<lambda>r. symbol r = s) df))
                 ! length (filter (\<lambda>r. symbol r = s) (take k df)))
         [0..<length df]"

record feat_row = price_row +
  trailing_high :: npfloat
  drop_from_high :: npfloat

definition with_features :: "nat \<Rightarrow> price_row list \<Rightarrow> feat_row list" where
  "with_features n df =
     map (\<lambda>(r, th).
            \<lparr>date = date r, symbol = symbol r, open_price = open_price r, close = close r,
             sector = sector r, trailing_high = th,
             drop_from_high = np_sub (np_div (Fin (open_price r)) th) (Fin 1)\<rparr>)
         (zip df (groupby_transform (trailing_high_series n) df))"

text \<open>
  The state of the day loop: \<^verbatim>\<open>cash\<close>, the dictionary \<^verbatim>\<open>positions\<close> (in insertion
  order, as Python keeps it), the list \<^verbatim>\<open>trades\<close> and the equity curve.
\<close>

record open_pos =
  entry_price :: real
  shares :: real
  entry_date :: timestamp

record pstate =
  cash :: real
  positions :: "(string \<times> open_pos) list"
  trades :: "pydict list"
  equity_curve :: "(timestamp \<times> real) list"

definition trade_entry ::
  "string \<Rightarrow> open_pos \<Rightarrow> timestamp \<Rightarrow> real \<Rightarrow> real \<Rightarrow> string \<Rightarrow> pydict" where
  "trade_entry tkr pos d price ret reason =
     [(''symbol'', PStr tkr),
      (''entry_date'', PTime (entry_date pos)),
      (''exit_date'', PTime d),
      (''entry_price'', PFloat (Fin (entry_price pos))),
      (''exit_price'', PFloat (Fin price)),
      (''return'', PFloat (Fin ret)),
      (''exit_reason'', PStr reason)]"

definition close_position ::
  "timestamp \<Rightarrow> pstate \<Rightarrow> string \<Rightarrow> open_pos \<Rightarrow> real \<Rightarrow> real \<Rightarrow> string \<Rightarrow> pstate" where
  "close_position d st tkr pos price ret reason =
     st\<lparr>cash := cash st + price * shares pos,
        trades := trades st @ [trade_entry tkr pos d price ret reason],
        positions := AList.delete tkr (positions st)\<rparr>"

text \<open>
  The body of \<^verbatim>\<open>for sym in list(positions.keys())\<close>: no bar today, take-profit,
  stop-loss, or still open.  Both prices are Python floats, so a zero entry price raises.
\<close>

definition exit_position ::
  "params \<Rightarrow> timestamp \<Rightarrow> feat_row list \<Rightarrow> pstate \<Rightarrow> string \<Rightarrow> error + pstate" where
  "exit_position p d day_data st tkr =
     (case map_of (positions st) tkr of
        None \<Rightarrow> Inl KeyError
      | Some pos \<Rightarrow>
          (case filter (\<lambda>r. symbol r = tkr) day_data of
             [] \<Rightarrow> Inr st
           | r # _ \<Rightarrow>
               let price = close r in
               if entry_price pos = 0 then Inl ZeroDivisionError
               else
                 let ret = price / entry_price pos - 1 in
                 if ret \<ge> pf_take_profit p then
                   Inr (close_position d st tkr pos price ret ''take_profit'')
                 else if ret \<le> - pf_stop_loss p then
                   Inr (close_position d st tkr pos price ret ''stop_loss'')
                 else Inr st))"

fun exit_all ::
  "params \<Rightarrow> timestamp \<Rightarrow> feat_row list \<Rightarrow> pstate \<Rightarrow> string list \<Rightarrow> error + pstate" where
  "exit_all p d day_data st [] = Inr st"
| "exit_all p d day_data st (k # ks) =
     (case exit_position p d day_data st k of
        Inl e \<Rightarrow> Inl e
      | Inr st' \<Rightarrow> exit_all p d day_data st' ks)"

text \<open>
  \<^verbatim>\<open>DataFrame.head(n)\<close>: the first \<open>n\<close> rows, and for a negative \<open>n\<close> all rows but
  the last \<open>-n\<close>.
\<close>

definition df_head :: "int \<Rightarrow> 'a list \<Rightarrow> 'a list" where
  "df_head n xs = (if 0 \<le> n then take (nat n) xs else take (length xs - nat (- n)) xs)"

text \<open>The body of the loop over \<^verbatim>\<open>candidates.head(max_new)\<close>.\<close>

definition enter_position :: "params \<Rightarrow> timestamp \<Rightarrow> pstate \<Rightarrow> feat_row \<Rightarrow> error + pstate" where
  "enter_position p d st r =
     (let invest_amt = starting_capital p * allocation_per_trade p in
      if cash st < invest_amt then Inr st
      else if open_price r = 0 then Inl ZeroDivisionError
      else
        Inr (st\<lparr>cash := cash st - invest_amt,
                positions :=
                  AList.update (symbol r)
                    \<lparr>entry_price = open_price r, shares = invest_amt / open_price r,
                     entry_date = d\<rparr>
                    (positions st)\<rparr>))"

fun enter_all :: "params \<Rightarrow> timestamp \<Rightarrow> pstate \<Rightarrow> feat_row list \<Rightarrow> error + pstate" where
  "enter_all p d st [] = Inr st"
| "enter_all p d st (r # rs) =
     (case enter_position p d st r of
        Inl e \<Rightarrow> Inl e
      | Inr st' \<Rightarrow> enter_all p d st' rs)"

definition candidates_of :: "params \<Rightarrow> feat_row list \<Rightarrow> pstate \<Rightarrow> feat_row list" where
  "candidates_of p day_data st =
     filter (\<lambda>r. np_le (drop_from_high r) (Fin (- drop_pct p)) \<and>
                 symbol r \<notin> set (map fst (positions st)))
            day_data"

text \<open>
  \<^verbatim>\<open>int(available_fraction // allocation_per_trade)\<close>, in exact arithmetic.
  Computed in floating point, the quotient can fall one below this value
  (\<^verbatim>\<open>1.0 // 0.2\<close> is 4, the float nearest to 0.2 being slightly above one fifth):
  the statements about the candidates that the loop admits take the computed cap as a
  parameter \<open>max_new\<close> instead.
\<close>

definition max_new_of :: "params \<Rightarrow> nat \<Rightarrow> int" where
  "max_new_of p open_trades =
     \<lfloor>(1 - real open_trades * allocation_per_trade p) / allocation_per_trade p\<rfloor>"

text \<open>
  The entry block of a day.  \<^verbatim>\<open>available_fraction // allocation_per_trade\<close> divides
  Python floats: it raises for a zero allocation.
\<close>

definition enter_day :: "params \<Rightarrow> timestamp \<Rightarrow> feat_row list \<Rightarrow> pstate \<Rightarrow> error + pstate" where
  "enter_day p d day_data st =
     (let open_trades = length (positions st) in
      if real open_trades * allocation_per_trade p < 1 then
        let candidates = candidates_of p day_data st in
        if candidates \<noteq> [] then
          if allocation_per_trade p = 0 then Inl ZeroDivisionError
          else enter_all p d st (df_head (max_new_of p open_trades) candidates)
        else Inr st
      else Inr st)"

definition mkt_val_of :: "feat_row list \<Rightarrow> (string \<times> open_pos) list \<Rightarrow> real" where
  "mkt_val_of day_data ps =
     foldl (\<lambda>acc (tkr, pos).
              case filter (\<lambda>r. symbol r = tkr) day_data of
                [] \<Rightarrow> acc
              | r # _ \<Rightarrow> acc + shares pos * close r)
           0 ps"

definition update_equity :: "timestamp \<Rightarrow> feat_row list \<Rightarrow> pstate \<Rightarrow> pstate" where
  "update_equity d day_data st =
     st\<lparr>equity_curve := equity_curve st @ [(d, cash st + mkt_val_of day_data (positions st))]\<rparr>"

text \<open>One iteration of \<^verbatim>\<open>for date in dates\<close>: exits, then entries, then the equity.\<close>

definition day_step :: "params \<Rightarrow> feat_row list \<Rightarrow> pstate \<Rightarrow> timestamp \<Rightarrow> error + pstate" where
  "day_step p df st d =
     (let day_data = filter (\<lambda>r. date r = d) df in
      case exit_all p d day_data st (map fst (positions st)) of
        Inl e \<Rightarrow> Inl e
      | Inr st1 \<Rightarrow>
          (case enter_day p d day_data st1 of
             Inl e \<Rightarrow> Inl e
           | Inr st2 \<Rightarrow> Inr (update_equity d day_data st2)))"

fun run_days :: "params \<Rightarrow> feat_row list \<Rightarrow> pstate \<Rightarrow> timestamp list \<Rightarrow> error + pstate" where
  "run_days p df st [] = Inr st"
| "run_days p df st (d # ds) =
     (case day_step p df st d of
        Inl e \<Rightarrow> Inl e
      | Inr st' \<Rightarrow> run_days p df st' ds)"

definition pstate_init :: "params \<Rightarrow> pstate" where
  "pstate_init p = \<lparr>cash = starting_capital p, positions = [], trades = [], equity_curve = []\<rparr>"

text \<open>
  \<^verbatim>\<open>run_sector_strategy\<close> on the prepared table: the rows of the sector (none raises
  \<^verbatim>\<open>ValueError\<close>), the trailing high (\<^verbatim>\<open>rolling\<close> raises \<^verbatim>\<open>ValueError\<close> for a
  window below \<^verbatim>\<open>min_periods=1\<close>), then the days in ascending order.  The result is
  the final state, with the ledger and the equity curve.
\<close>

definition sector_rows :: "params \<Rightarrow> price_row list \<Rightarrow> price_row list" where
  "sector_rows p data = filter (\<lambda>r. str_lower (sector r) = str_lower (sector_name p)) data"

definition dates_of :: "price_row list \<Rightarrow> timestamp list" where
  "dates_of df = sort (remdups (map date df))"

definition run_sector_strategy :: "params \<Rightarrow> price_row list \<Rightarrow> error + pstate" where
  "run_sector_strategy p data =
     (let df = sector_rows p data in
      if df = [] then Inl ValueError
      else if lookback_days p < 1 then Inl ValueError
      else run_days p (with_features (nat (lookback_days p)) df) (pstate_init p) (dates_of df))"

section \<open>Metrics\<close>

text \<open>
  A table of trades is the list of its rows.  \<^verbatim>\<open>DataFrame.empty\<close> holds when the
  table has no row or no column; a column exists when some row has the key, and a row
  without the key holds \<^verbatim>\<open>nan\<close> there.
\<close>

definition df_empty :: "pydict list \<Rightarrow> bool" where
  "df_empty df = (df = [] \<or> list_all (\<lambda>row. row = []) df)"

definition has_column :: "string \<Rightarrow> pydict list \<Rightarrow> bool" where
  "has_column c df = list_ex (\<lambda>row. c \<in> set (map fst row)) df"

definition float_column :: "string \<Rightarrow> pydict list \<Rightarrow> npfloat list" where
  "float_column c df =
     map (\<lambda>row. case map_of row c of
                   Some (PFloat x) \<Rightarrow> x
                 | Some (PInt i) \<Rightarrow> Fin (real_of_int i)
                 | _ \<Rightarrow> NaN)
         df"

text \<open>\<^verbatim>\<open>Series.median\<close> of the finite values of a column (\<^verbatim>\<open>nan\<close> is skipped).\<close>

definition finite_values :: "npfloat list \<Rightarrow> real list" where
  "finite_values xs = concat (map (\<lambda>x. case x of Fin v \<Rightarrow> [v] | _ \<Rightarrow> []) xs)"

definition median :: "real list \<Rightarrow> npfloat" where
  "median xs =
     (let ys = sort xs; n = length ys in
      if n = 0 then NaN
      else if odd n then Fin (ys ! (n div 2))
      else Fin ((ys ! (n div 2 - 1) + ys ! (n div 2)) / 2))"

record metrics =
  win_rate :: npfloat
  avg_win :: npfloat
  avg_loss :: npfloat
  profit_factor :: npfloat
  expectancy :: npfloat
  median_hold :: npfloat

definition zero_metrics :: metrics where
  "zero_metrics = \<lparr>win_rate = Fin 0, avg_win = Fin 0, avg_loss = Fin 0,
                    profit_factor = Fin 0, expectancy = Fin 0, median_hold = Fin 0\<rparr>"

text \<open>
  \<^verbatim>\<open>ReportGenerator._extra_metrics_from_trades\<close>; \<^verbatim>\<open>self.trades\<close> may be \<^verbatim>\<open>None\<close>.
  Reading a column that the table does not have raises \<^verbatim>\<open>KeyError\<close>.
\<close>

definition extra_metrics_from_trades :: "pydict list option \<Rightarrow> error + metrics" where
  "extra_metrics_from_trades trades_opt =
     (case trades_opt of
        None \<Rightarrow> Inr zero_metrics
      | Some df \<Rightarrow>
          if df_empty df then Inr zero_metrics
          else if \<not> has_column ''return'' df then Inl KeyError
          else
            let r = float_column ''return'' df;
                wins = filter (\<lambda>x. np_gt x (Fin 0)) r;
                losses = filter (\<lambda>x. np_le x (Fin 0)) r;
                wr = (if length r \<noteq> 0 then real (length wins) / real (length r) else 0);
                aw = (if length wins \<noteq> 0 then series_mean wins else Fin 0);
                al = (if length losses \<noteq> 0 then series_mean losses else Fin 0);
                gross_profit = (if length wins \<noteq> 0 then series_sum wins else Fin 0);
                gross_loss = (if length losses \<noteq> 0 then np_neg (series_sum losses) else Fin 0);
                pf = (if np_gt gross_loss (Fin 0) then np_div gross_profit gross_loss
                      else if np_gt gross_profit (Fin 0) then PInf
                      else Fin 0);
                ex = np_add (np_mul (Fin wr) aw) (np_mul (Fin (1 - wr)) al);
                mh = (if has_column ''holding_days'' df
                      then median (finite_values (float_column ''holding_days'' df))
                      else Fin 0)
            in Inr \<lparr>win_rate = Fin wr, avg_win = aw, avg_loss = al, profit_factor = pf,
                    expectancy = ex, median_hold = mh\<rparr>)"

text \<open>
  \<^verbatim>\<open>calculate_sharpe_ratio(returns, risk_free_rate)\<close> of the report workflow.  The
  power of a negative base is a complex number in Python, which the model does not
  represent: the result is \<open>None\<close> there.

  \<^verbatim>\<open>Series.std\<close> and \<^verbatim>\<open>Series.mean\<close> are computed by the library in floating point,
  and the deviation is compared with 0: rounding decides that test (on the constant
  series 0.1, 0.1, 0.1 the exact deviation is 0 and the computed one is about 1.7e-17).
  The two reductions are therefore arguments \<open>std_of\<close> and \<open>mean_of\<close> of the model,
  and what is proved of it holds of the values that the library returns;
  \<open>series_std\<close> and \<open>series_mean\<close> are their values in exact arithmetic.
\<close>

definition daily_rf_of :: "real \<Rightarrow> real" where
  "daily_rf_of risk_free_rate = (1 + risk_free_rate) powr (1 / 252) - 1"

definition calculate_sharpe_ratio ::
  "(npfloat list \<Rightarrow> npfloat) \<Rightarrow> (npfloat list \<Rightarrow> npfloat) \<Rightarrow>
   npfloat list \<Rightarrow> real \<Rightarrow> npfloat option" where
  "calculate_sharpe_ratio std_of mean_of returns risk_free_rate =
     (if np_eq (std_of returns) (Fin 0) then Some (Fin 0)
      else if 1 + risk_free_rate < 0 then None
      else
        let daily_rf = daily_rf_of risk_free_rate;
            excess_returns = map (\<lambda>x. np_sub x (Fin daily_rf)) returns
        in Some (np_div (np_mul (Fin (sqrt 252)) (mean_of excess_returns))
                        (std_of excess_returns)))"

text \<open>The Sharpe ratio printed by \<^verbatim>\<open>ReportGenerator.summary\<close>, from the return column.\<close>

definition summary_sharpe ::
  "(npfloat list \<Rightarrow> npfloat) \<Rightarrow> (npfloat list \<Rightarrow> npfloat) \<Rightarrow> npfloat list \<Rightarrow> npfloat" where
  "summary_sharpe std_of mean_of rets =
     (if \<not> np_eq (std_of rets) (Fin 0)
      then np_mul (np_div (mean_of rets) (std_of rets)) (Fin (sqrt 252))
      else Fin 0)"

text \<open>
  The Sharpe ratio as the specification words it: 0 when the standard deviation of the
  returns is 0, and otherwise \<open>sqrt 252\<close> times the mean of the excess returns over
  their standard deviation, the excess return being the return minus the daily
  risk-free rate.
\<close>

definition sharpe_spec ::
  "(npfloat list \<Rightarrow> npfloat) \<Rightarrow> (npfloat list \<Rightarrow> npfloat) \<Rightarrow>
   real \<Rightarrow> npfloat list \<Rightarrow> npfloat" where
  "sharpe_spec std_of mean_of annual_rf rets =
     (let excess = map (\<lambda>x. np_sub x (Fin ((1 + annual_rf) powr (1 / 252) - 1))) rets in
      if std_of rets = Fin 0 then Fin 0
      else np_div (np_mul (Fin (sqrt 252)) (mean_of excess)) (std_of excess))"

section \<open>Predicates used in the statements\<close>

text \<open>The keys of a ledger row of the single-instrument backtester, in order.\<close>

definition trade_keys :: "string list" where
  "trade_keys = [''symbol'', ''side'', ''entry_date'', ''entry_price'', ''exit_date'',
                 ''exit_price'', ''return'', ''holding_days'', ''exit_reason'']"

text \<open>
  A well-formed ledger row over the rows \<open>rows\<close> of the instrument: it has the keys
  above, its two dates are dates of the series with the entry strictly first, and its
  holding period is the whole number of days between them.
\<close>

definition good_trade :: "sig_row list \<Rightarrow> pydict \<Rightarrow> bool" where
  "good_trade rows t =
     (map fst t = trade_keys \<and>
      (\<exists>a b. map_of t ''entry_date'' = Some (PTime a) \<and>
             map_of t ''exit_date'' = Some (PTime b) \<and>
             map_of t ''holding_days'' = Some (PInt (td_days (b - a))) \<and>
             a < b \<and> a \<in> row_date ` set rows \<and> b \<in> row_date ` set rows))"

text \<open>
  \<open>spans_rows ds t\<close>: the ledger row \<open>t\<close> was opened on a row of the series with
  dates \<open>ds\<close> and closed on a row that comes strictly after it in the series; its two
  dates are the dates of these rows, and its holding period the whole number of days
  between them.
\<close>

definition spans_rows :: "timestamp list \<Rightarrow> pydict \<Rightarrow> bool" where
  "spans_rows ds t =
     (\<exists>j<length ds. \<exists>i<j.
        map_of t ''entry_date'' = Some (PTime (ds ! i)) \<and>
        map_of t ''exit_date'' = Some (PTime (ds ! j)) \<and>
        map_of t ''holding_days'' = Some (PInt (td_days (ds ! j - ds ! i))))"

text \<open>
  \<open>closed_by p d day_data ps t\<close>: the ledger row \<open>t\<close> is what the exit loop of day
  \<open>d\<close> appends for one of the open positions \<open>ps\<close>; \<open>opened_by p d r\<close> is the entry
  of \<^verbatim>\<open>positions\<close> that the entry loop writes for the candidate row \<open>r\<close>.
\<close>

definition closed_by :: "params \<Rightarrow> timestamp \<Rightarrow> feat_row list \<Rightarrow> (string \<times> open_pos) list \<Rightarrow> pydict \<Rightarrow> bool" where
  "closed_by p d day_data ps t =
     (\<exists>k pos r. (k, pos) \<in> set ps \<and> r \<in> set day_data \<and> symbol r = k \<and> entry_price pos \<noteq> 0 \<and>
        (let ret = close r / entry_price pos - 1 in
         t = trade_entry k pos d (close r) ret
               (if ret \<ge> pf_take_profit p then ''take_profit'' else ''stop_loss'') \<and>
         (ret \<ge> pf_take_profit p \<or> ret \<le> - pf_stop_loss p)))"

definition opened_by :: "params \<Rightarrow> timestamp \<Rightarrow> feat_row \<Rightarrow> string \<times> open_pos" where
  "opened_by p d r =
     (symbol r, \<lparr>entry_price = open_price r,
                 shares = starting_capital p * allocation_per_trade p / open_price r,
                 entry_date = d\<rparr>)"


text \<open>
  The trailing high as the specification words it, from the closes of the strictly
  prior days of the instrument, oldest first: the maximum of the last \<open>n\<close> of them,
  undefined (\<^verbatim>\<open>nan\<close>) when there is none.  \<open>prior_rows df k\<close> are the rows of the
  instrument of row \<open>k\<close> that are dated strictly before it.
\<close>

definition trailing_high_spec :: "nat \<Rightarrow> real list \<Rightarrow> npfloat" where
  "trailing_high_spec n prior =
     (if prior = [] then NaN else Fin (Max (set (drop (length prior - n) prior))))"

definition prior_rows :: "price_row list \<Rightarrow> nat \<Rightarrow> price_row list" where
  "prior_rows df k =
     filter (\<lambda>r. symbol r = symbol (df ! k) \<and> date r < date (df ! k)) df"

text \<open>
  The keys of a ledger row of the portfolio backtester, in order, and a well-formed
  row: these keys, and an entry date strictly before the exit date.
\<close>

definition ptrade_keys :: "string list" where
  "ptrade_keys = [''symbol'', ''entry_date'', ''exit_date'', ''entry_price'', ''exit_price'',
                  ''return'', ''exit_reason'']"

definition good_ptrade :: "pydict \<Rightarrow> bool" where
  "good_ptrade t =
     (map fst t = ptrade_keys \<and>
      (\<exists>a b. map_of t ''entry_date'' = Some (PTime a) \<and>
             map_of t ''exit_date'' = Some (PTime b) \<and> a < b))"

text \<open>
  An entry of instrument \<open>k\<close> at date \<open>e\<close> lies after the first bar of \<open>k\<close> in the
  table when some bar of \<open>k\<close> is dated strictly before \<open>e\<close>.
\<close>

definition entered_after_first :: "price_row list \<Rightarrow> string \<Rightarrow> timestamp \<Rightarrow> bool" where
  "entered_after_first df k e = (\<exists>x\<in>set df. symbol x = k \<and> date x < e)"

definition trade_after_first :: "price_row list \<Rightarrow> pydict \<Rightarrow> bool" where
  "trade_after_first df t =
     (\<exists>k e. map_of t ''symbol'' = Some (PStr k) \<and> map_of t ''entry_date'' = Some (PTime e) \<and>
            entered_after_first df k e)"

section \<open>Example inputs\<close>

text \<open>
  Five daily bars of one instrument, written in lower case in the table, and a strategy
  that buys after a three-day fall of 5 percent and sells after a three-day rise of
  3 percent.
\<close>

definition ex_data :: "price_row list" where
  "ex_data = map (\<lambda>(i, c). \<lparr>date = i * ns_per_day, symbol = ''abc'', open_price = c, close = c, sector = ''tech''\<rparr>)
     [(0, 100), (1, 100), (2, 94), (3, 94), (4, 104)]"

definition ex_strategy :: strategy where
  "ex_strategy = \<lparr>entry = \<lparr>action = ''buy'', rule_symbol = Some ''ABC'',
       condition = \<lparr>period_days = Some 3, threshold = Given (5/100), direction = Given ''down'', stop_loss = None, take_profit = None\<rparr>\<rparr>,
     exit = Some \<lparr>action = ''sell'', rule_symbol = Some ''ABC'',
       condition = \<lparr>period_days = Some 3, threshold = Given (3/100), direction = Given ''up'', stop_loss = None, take_profit = None\<rparr>\<rparr>\<rparr>"

text \<open>A row on which the entry signal and the exit signal are both set.\<close>

definition ex_both_row :: sig_row where
  "ex_both_row = \<lparr>row_date = 0, row_close = 100, entry_signal = True, exit_signal = True,
                  exit_reason_base = True, exit_reason_sl = False, exit_reason_tp = False\<rparr>"

text \<open>
  Four instruments of one sector over four days, in the order of the input file, and the
  table as the portfolio loader prepares it.  With half of the capital per position:
  \<open>AAA\<close> is bought on day 1 and stopped out on day 2 at half its price, which leaves
  75 of cash; on day 2 the three others are candidates, two may be admitted, \<open>BBB\<close> is
  bought and the cash, now 25, is too low for \<open>CCC\<close>.
\<close>

definition bar :: "string \<Rightarrow> int \<Rightarrow> real \<Rightarrow> real \<Rightarrow> price_row" where
  "bar tkr day o_px c_px =
     \<lparr>date = day * ns_per_day, symbol = tkr, open_price = o_px, close = c_px, sector = ''Tech''\<rparr>"

definition ex_raw :: "price_row list" where
  "ex_raw =
     [bar ''DDD'' 0 100 100, bar ''CCC'' 0 100 100, bar ''BBB'' 0 100 100, bar ''AAA'' 0 100 100,
      bar ''AAA'' 1 90 90, bar ''BBB'' 1 100 100, bar ''CCC'' 1 100 100, bar ''DDD'' 1 100 100,
      bar ''AAA'' 2 100 45, bar ''BBB'' 2 90 90, bar ''CCC'' 2 90 90, bar ''DDD'' 2 90 90,
      bar ''AAA'' 3 45 45, bar ''BBB'' 3 99 99, bar ''CCC'' 3 90 90, bar ''DDD'' 3 90 90]"

definition ex_panel :: "price_row list" where
  "ex_panel = load_and_prepare_data ex_raw"

definition ex_params :: params where
  "ex_params = \<lparr>starting_capital = 100, sector_name = ''tech'', drop_pct = 5 / 100,
                 lookback_days = 5, allocation_per_trade = 1 / 2,
                 pf_stop_loss = 5 / 100, pf_take_profit = 5 / 100\<rparr>"

text \<open>The state that a run returns, and an empty state for a run that raises.\<close>

definition result_state :: "error + pstate \<Rightarrow> pstate" where
  "result_state res =
     (case res of
        Inr st \<Rightarrow> st
      | Inl e \<Rightarrow> \<lparr>cash = 0, positions = [], trades = [], equity_curve = []\<rparr>)"

definition returns_state :: "error + pstate \<Rightarrow> bool" where
  "returns_state res = (case res of Inr st \<Rightarrow> True | Inl e \<Rightarrow> False)"

text \<open>The rows of day 2 with their features, and the state after the exits of day 2.\<close>

definition ex_day2 :: "feat_row list" where
  "ex_day2 = filter (\<lambda>r. date r = 2 * ns_per_day) (with_features 5 ex_panel)"

definition ex_state2 :: pstate where
  "ex_state2 =
     \<lparr>cash = 75, positions = [],
      trades = [trade_entry ''AAA''
                  \<lparr>entry_price = 90, shares = 5 / 9, entry_date = ns_per_day\<rparr>
                  (2 * ns_per_day) 45 (- (1 / 2)) ''stop_loss''],
      equity_curve = [(0, 100), (ns_per_day, 100)]\<rparr>"

text \<open>The example table without the bars dated after day 2.\<close>

definition ex_panel_to_day2 :: "price_row list" where
  "ex_panel_to_day2 = filter (\<lambda>r. date r \<le> 2 * ns_per_day) ex_panel"

text \<open>
  Thresholds for which the take-profit and the stop-loss conditions can hold together:
  a strategy whose exit takes profit from -10 percent and stops the loss at -5 percent,
  with a state of the loop that holds a position; and portfolio parameters that take
  profit from -50 percent and stop the loss at -10 percent, with a state that holds
  \<open>AAA\<close>.
\<close>

definition ex_strategy_both :: strategy where
  "ex_strategy_both =
     \<lparr>entry = \<lparr>action = ''buy'', rule_symbol = Some ''ABC'',
               condition = \<lparr>period_days = Some 1, threshold = Given (5 / 100),
                            direction = Given ''down'', stop_loss = None, take_profit = None\<rparr>\<rparr>,
      exit = Some \<lparr>action = ''sell'', rule_symbol = Some ''ABC'',
               condition = \<lparr>period_days = Some 3, threshold = Given (3 / 100),
                            direction = Given ''up'', stop_loss = Some (5 / 100),
                            take_profit = Some (- (1 / 10))\<rparr>\<rparr>\<rparr>"

definition ex_open_sim :: sim where
  "ex_open_sim = \<lparr>position = 1, positions_list = [0, 0, 1], ledger = [], entry_idx = Some 2,
                  sim_entry_price = Some 94, sim_entry_date = Some (2 * ns_per_day), side = 1\<rparr>"

definition ex_params_both :: params where
  "ex_params_both = \<lparr>starting_capital = 100, sector_name = ''tech'', drop_pct = 5 / 100,
                      lookback_days = 5, allocation_per_trade = 1 / 2,
                      pf_stop_loss = 1 / 10, pf_take_profit = - (1 / 2)\<rparr>"

definition ex_held :: pstate where
  "ex_held = \<lparr>cash = 50,
              positions = [(''AAA'', \<lparr>entry_price = 90, shares = 5 / 9, entry_date = ns_per_day\<rparr>)],
              trades = [], equity_curve = []\<rparr>"

text \<open>
  A file that quotes one instrument under two spellings, \<open>abc\<close> on day 1 and \<open>ABC\<close>
  on days 0 and 1, and a strategy that buys after a one-day fall of 5 percent and sells
  after a one-day rise of 3 percent; the signal table and the ledger that a run returns,
  empty for a run that raises.
\<close>

definition ex_mixed_raw :: "price_row list" where
  "ex_mixed_raw = [bar ''abc'' 1 104 104, bar ''ABC'' 0 100 100, bar ''ABC'' 1 94 94]"

definition ex_strategy_daily :: strategy where
  "ex_strategy_daily =
     \<lparr>entry = \<lparr>action = ''buy'', rule_symbol = Some ''ABC'',
               condition = \<lparr>period_days = Some 1, threshold = Given (5 / 100),
                            direction = Given ''down'', stop_loss = None, take_profit = None\<rparr>\<rparr>,
      exit = Some \<lparr>action = ''sell'', rule_symbol = Some ''ABC'',
               condition = \<lparr>period_days = Some 1, threshold = Given (3 / 100),
                            direction = Given ''up'', stop_loss = None, take_profit = None\<rparr>\<rparr>\<rparr>"

definition rows_of :: "error + sig_row list \<Rightarrow> sig_row list" where
  "rows_of res = (case res of Inr rows \<Rightarrow> rows | Inl e \<Rightarrow> [])"

definition ledger_of :: "error + sim \<Rightarrow> pydict list" where
  "ledger_of res = (case res of Inr st \<Rightarrow> ledger st | Inl e \<Rightarrow> [])"

section \<open>Properties of the single-instrument backtester\<close>

lemma length_pct_change [simp]: "length (pct_change p xs) = length xs"
  by (simp add: pct_change_def series_shift_def)

lemma length_entry_signals: "entry_signals c closes = Inr es \<Longrightarrow> length es = length closes"
  by (auto simp: entry_signals_def Let_def split: if_splits option.splits)

lemma length_exit_signals: "exit_signals xr closes = Inr xs \<Longrightarrow> length xs = length closes"
  by (auto simp: exit_signals_def Let_def split: if_splits option.splits)

lemma map_row_date_make_rows:
  "length es = length df \<Longrightarrow> length xs = length df \<Longrightarrow>
   map row_date (make_rows df es xs) = map date df"
  by (rule nth_equalityI) (simp_all add: make_rows_def split: prod.splits)

lemma signal_rows_make:
  assumes "signal_rows s df = Inr rows"
  obtains es xs where "rows = make_rows df es xs" "length es = length df" "length xs = length df"
proof -
  from assms obtain es xs where
    e: "entry_signals (condition (entry s)) (map close df) = Inr es" and
    x: "exit_signals (exit s) (map close df) = Inr xs" and
    r: "rows = make_rows df es xs"
    by (auto simp: signal_rows_def Let_def split: sum.splits)
  from length_entry_signals[OF e] length_exit_signals[OF x] r that show thesis by simp
qed

lemma map_row_date_signal_rows:
  "signal_rows s df = Inr rows \<Longrightarrow> map row_date rows = map date df"
  by (erule signal_rows_make) (simp add: map_row_date_make_rows)

lemma length_signal_rows: "signal_rows s df = Inr rows \<Longrightarrow> length rows = length df"
  using map_row_date_signal_rows[of s df rows] by (metis length_map)

lemma exit_signal_signal_rows:
  "signal_rows s df = Inr rows \<Longrightarrow> r \<in> set rows \<Longrightarrow>
   exit_signal r = (exit_reason_base r \<or> exit_reason_sl r \<or> exit_reason_tp r)"
  by (erule signal_rows_make) (auto simp: make_rows_def)

lemma ledger_entry_good:
  "a < b \<Longrightarrow> a \<in> row_date ` set rows \<Longrightarrow> b \<in> row_date ` set rows \<Longrightarrow>
   good_trade rows (ledger_entry tkr sd a ep b xp reason)"
  by (simp add: good_trade_def ledger_entry_def trade_keys_def)

lemma simulate_inv:
  assumes "sorted_wrt (<) (map (\<lambda>ir. row_date (snd ir)) irs)"
    and "snd ` set irs \<subseteq> set rows"
    and "\<forall>t\<in>set (ledger st). good_trade rows t"
    and "position st \<noteq> 0 \<longrightarrow>
           (\<exists>ep ed. sim_entry_price st = Some ep \<and> sim_entry_date st = Some ed \<and>
                    ed \<in> row_date ` set rows \<and> (\<forall>ir\<in>set irs. ed < row_date (snd ir)))"
  shows "\<exists>st'. simulate tkr act st irs = Inr st' \<and> (\<forall>t\<in>set (ledger st'). good_trade rows t)"
  using assms
proof (induction irs arbitrary: st)
  case Nil
  then show ?case by simp
next
  case (Cons ir irs)
  obtain i r where ir: "ir = (i, r)" by (cases ir)
  have sorted_tl: "sorted_wrt (<) (map (\<lambda>ir. row_date (snd ir)) irs)"
    and later: "\<forall>x\<in>set irs. row_date r < row_date (snd x)"
    using Cons.prems(1) ir by auto
  have sub: "snd ` set irs \<subseteq> set rows" and r_in: "r \<in> set rows"
    using Cons.prems(2) ir by auto
  consider (enter) "position st = 0" "entry_signal r"
    | (leave) "position st \<noteq> 0" "exit_signal r"
    | (hold) "position st \<noteq> 0" "\<not> exit_signal r"
    | (flat) "position st = 0" "\<not> entry_signal r"
    by blast
  then show ?case
  proof cases
    case enter
    let ?sd = "if act = ''buy'' then 1 else - 1 :: int"
    let ?st = "log_position (st\<lparr>side := ?sd, position := ?sd, entry_idx := Some i,
                   sim_entry_price := Some (row_close r), sim_entry_date := Some (row_date r)\<rparr>)"
    have s: "step tkr act st ir = Inr ?st"
      using enter ir by (simp add: step_def Let_def)
    have "\<exists>st'. simulate tkr act ?st irs = Inr st' \<and> (\<forall>t\<in>set (ledger st'). good_trade rows t)"
      using sorted_tl sub Cons.prems(3) later r_in
      by (intro Cons.IH) (auto simp: log_position_def)
    with s show ?thesis by simp
  next
    case leave
    from leave Cons.prems(4) obtain ep ed where e:
      "sim_entry_price st = Some ep" "sim_entry_date st = Some ed"
      "ed \<in> row_date ` set rows" "ed < row_date r"
      using ir by auto
    let ?st = "log_position
                       (st\<lparr>ledger := ledger st @
                              [ledger_entry tkr (side st) ed ep (row_date r) (row_close r)
                                 (exit_reason_of r)],
                           position := 0, entry_idx := None, sim_entry_price := None,
                           sim_entry_date := None, side := 0\<rparr>)"
    have s: "step tkr act st ir = Inr ?st"
      using leave ir e by (simp add: step_def Let_def)
    have g: "good_trade rows (ledger_entry tkr (side st) ed ep (row_date r) (row_close r)
                                 (exit_reason_of r))"
      using e r_in by (intro ledger_entry_good) auto
    have "\<exists>st'. simulate tkr act ?st irs = Inr st' \<and> (\<forall>t\<in>set (ledger st'). good_trade rows t)"
      using sorted_tl sub Cons.prems(3) g
      by (intro Cons.IH) (auto simp: log_position_def)
    with s show ?thesis by simp
  next
    case hold
    have s: "step tkr act st ir = Inr (log_position st)"
      using hold ir by (simp add: step_def Let_def)
    have "\<exists>st'. simulate tkr act (log_position st) irs = Inr st' \<and>
                (\<forall>t\<in>set (ledger st'). good_trade rows t)"
      using sorted_tl sub Cons.prems(3,4) hold
      by (intro Cons.IH) (auto simp: log_position_def)
    with s show ?thesis by simp
  next
    case flat
    have s: "step tkr act st ir = Inr (log_position st)"
      using flat ir by (simp add: step_def Let_def)
    have "\<exists>st'. simulate tkr act (log_position st) irs = Inr st' \<and>
                (\<forall>t\<in>set (ledger st'). good_trade rows t)"
      using sorted_tl sub Cons.prems(3) flat
      by (intro Cons.IH) (auto simp: log_position_def)
    with s show ?thesis by simp
  qed
qed

lemma run_simulates:
  assumes "run data s = Inr st"
  obtains rows where "signal_rows s (symbol_rows (strategy_symbol s) data) = Inr rows"
    "simulate (strategy_symbol s) (action (entry s)) sim_init (zip [0..<length rows] rows) = Inr st"
  using assms by (auto simp: run_def Let_def split: if_splits sum.splits)

lemma run_ledger_good:
  assumes srt: "sorted_wrt (<) (map date (symbol_rows (strategy_symbol s) data))"
    and run: "run data s = Inr st"
  shows "\<exists>rows. signal_rows s (symbol_rows (strategy_symbol s) data) = Inr rows \<and>
           (\<forall>t\<in>set (ledger st). good_trade rows t)"
proof -
  let ?df = "symbol_rows (strategy_symbol s) data"
  from run obtain rows where rows: "signal_rows s ?df = Inr rows" and
    sim: "simulate (strategy_symbol s) (action (entry s)) sim_init
            (zip [0..<length rows] rows) = Inr st"
    by (rule run_simulates)
  let ?irs = "zip [0..<length rows] rows"
  have snd_irs: "map snd ?irs = rows" by (simp add: map_snd_zip)
  have "map (\<lambda>ir. row_date (snd ir)) ?irs = map row_date (map snd ?irs)"
    by (simp only: map_map o_def)
  also have "\<dots> = map date ?df" using snd_irs rows by (simp add: map_row_date_signal_rows)
  finally have s1: "sorted_wrt (<) (map (\<lambda>ir. row_date (snd ir)) ?irs)" using srt by simp
  have s2: "snd ` set ?irs \<subseteq> set rows"
    using snd_irs by (metis set_map subset_refl)
  have "\<exists>st'. simulate (strategy_symbol s) (action (entry s)) sim_init ?irs = Inr st' \<and>
              (\<forall>t\<in>set (ledger st'). good_trade rows t)"
    using s1 s2 by (rule simulate_inv) (simp_all add: sim_init_def)
  with sim rows show ?thesis by simp
qed

lemma whole_days_between:
  assumes "a < b" "a mod ns_per_day = 0" "b mod ns_per_day = 0"
  shows "1 \<le> td_days (b - a)"
proof -
  have pos: "0 < ns_per_day" by (simp add: ns_per_day_def)
  from assms(2,3) have "ns_per_day dvd b - a" by (simp add: dvd_diff mod_eq_0_iff_dvd)
  then obtain k where k: "b - a = ns_per_day * k" by (auto simp: dvd_def)
  from assms(1) k have "0 < ns_per_day * k" by simp
  then have "0 < k" using pos by (rule zero_less_mult_pos)
  with k pos show ?thesis by (simp add: td_days_def)
qed

text \<open>
  Whatever the order of the dates, the loop closes a position on a row that comes after
  the row that opened it: every ledger row spans two rows of the series, the entry row
  strictly before the exit row.
\<close>

lemma ledger_entry_spans:
  "i < j \<Longrightarrow> j < length ds \<Longrightarrow>
   spans_rows ds (ledger_entry tkr sd (ds ! i) ep (ds ! j) xp reason)"
  by (auto simp: spans_rows_def ledger_entry_def)

lemma simulate_spans:
  assumes "\<forall>ir\<in>set irs. fst ir < length rows \<and> snd ir = rows ! fst ir"
    and "sorted_wrt (<) (map fst irs)"
    and "\<forall>t\<in>set (ledger st). spans_rows (map row_date rows) t"
    and "position st \<noteq> 0 \<longrightarrow>
           (\<exists>e ep. sim_entry_price st = Some ep \<and>
                   sim_entry_date st = Some (row_date (rows ! e)) \<and>
                   (\<forall>ir\<in>set irs. e < fst ir))"
  shows "\<exists>st'. simulate tkr act st irs = Inr st' \<and>
               (\<forall>t\<in>set (ledger st'). spans_rows (map row_date rows) t)"
  using assms
proof (induction irs arbitrary: st)
  case Nil
  then show ?case by simp
next
  case (Cons ir irs)
  obtain i r where ir: "ir = (i, r)" by (cases ir)
  have sorted_tl: "sorted_wrt (<) (map fst irs)"
    and later: "\<forall>x\<in>set irs. i < fst x"
    using Cons.prems(2) ir by auto
  have sub: "\<forall>ir\<in>set irs. fst ir < length rows \<and> snd ir = rows ! fst ir"
    and i_lt: "i < length rows" and r_eq: "r = rows ! i"
    using Cons.prems(1) ir by auto
  consider (enter) "position st = 0" "entry_signal r"
    | (leave) "position st \<noteq> 0" "exit_signal r"
    | (hold) "position st \<noteq> 0" "\<not> exit_signal r"
    | (flat) "position st = 0" "\<not> entry_signal r"
    by blast
  then show ?case
  proof cases
    case enter
    let ?sd = "if act = ''buy'' then 1 else - 1 :: int"
    let ?st = "log_position (st\<lparr>side := ?sd, position := ?sd, entry_idx := Some i,
                   sim_entry_price := Some (row_close r), sim_entry_date := Some (row_date r)\<rparr>)"
    have s: "step tkr act st ir = Inr ?st"
      using enter ir by (simp add: step_def Let_def)
    have "\<exists>st'. simulate tkr act ?st irs = Inr st' \<and>
                (\<forall>t\<in>set (ledger st'). spans_rows (map row_date rows) t)"
      using sub sorted_tl Cons.prems(3) later r_eq
      by (intro Cons.IH) (auto simp: log_position_def)
    with s show ?thesis by simp
  next
    case leave
    from leave Cons.prems(4) obtain e ep where e:
      "sim_entry_price st = Some ep" "sim_entry_date st = Some (row_date (rows ! e))" "e < i"
      using ir by auto
    let ?st = "log_position
                       (st\<lparr>ledger := ledger st @
                              [ledger_entry tkr (side st) (row_date (rows ! e)) ep (row_date r)
                                 (row_close r) (exit_reason_of r)],
                           position := 0, entry_idx := None, sim_entry_price := None,
                           sim_entry_date := None, side := 0\<rparr>)"
    have s: "step tkr act st ir = Inr ?st"
      using leave ir e by (simp add: step_def Let_def)
    have "spans_rows (map row_date rows)
            (ledger_entry tkr (side st) (map row_date rows ! e) ep (map row_date rows ! i)
               (row_close r) (exit_reason_of r))"
      using e(3) i_lt by (intro ledger_entry_spans) simp_all
    then have g: "spans_rows (map row_date rows)
            (ledger_entry tkr (side st) (row_date (rows ! e)) ep (row_date r)
               (row_close r) (exit_reason_of r))"
      using e(3) i_lt r_eq by simp
    have "\<exists>st'. simulate tkr act ?st irs = Inr st' \<and>
                (\<forall>t\<in>set (ledger st'). spans_rows (map row_date rows) t)"
      using sub sorted_tl Cons.prems(3) g
      by (intro Cons.IH) (auto simp: log_position_def)
    with s show ?thesis by simp
  next
    case hold
    have s: "step tkr act st ir = Inr (log_position st)"
      using hold ir by (simp add: step_def Let_def)
    have "\<exists>st'. simulate tkr act (log_position st) irs = Inr st' \<and>
                (\<forall>t\<in>set (ledger st'). spans_rows (map row_date rows) t)"
      using sub sorted_tl Cons.prems(3,4) hold
      by (intro Cons.IH) (auto simp: log_position_def)
    with s show ?thesis by simp
  next
    case flat
    have s: "step tkr act st ir = Inr (log_position st)"
      using flat ir by (simp add: step_def Let_def)
    have "\<exists>st'. simulate tkr act (log_position st) irs = Inr st' \<and>
                (\<forall>t\<in>set (ledger st'). spans_rows (map row_date rows) t)"
      using sub sorted_tl Cons.prems(3) flat
      by (intro Cons.IH) (auto simp: log_position_def)
    with s show ?thesis by simp
  qed
qed

lemma run_ledger_spans:
  assumes run: "run data s = Inr st" and t: "t \<in> set (ledger st)"
  shows "spans_rows (map date (symbol_rows (strategy_symbol s) data)) t"
proof -
  let ?df = "symbol_rows (strategy_symbol s) data"
  from run obtain rows where rows: "signal_rows s ?df = Inr rows" and
    sim: "simulate (strategy_symbol s) (action (entry s)) sim_init
            (zip [0..<length rows] rows) = Inr st"
    by (rule run_simulates)
  let ?irs = "zip [0..<length rows] rows"
  have s1: "\<forall>ir\<in>set ?irs. fst ir < length rows \<and> snd ir = rows ! fst ir"
    by (auto simp: set_zip)
  have "map fst ?irs = [0..<length rows]" by (simp add: map_fst_zip)
  then have s2: "sorted_wrt (<) (map fst ?irs)" by (simp only: sorted_wrt_upt)
  have "\<exists>st'. simulate (strategy_symbol s) (action (entry s)) sim_init ?irs = Inr st' \<and>
              (\<forall>t\<in>set (ledger st'). spans_rows (map row_date rows) t)"
    using s1 s2 by (rule simulate_spans) (simp_all add: sim_init_def)
  with sim t have "spans_rows (map row_date rows) t" by simp
  then show ?thesis using map_row_date_signal_rows[OF rows] by simp
qed

text \<open>
  The loader of the single-instrument backtester keeps one row for each symbol and
  date, and sorts by symbol, then date.  When the rows that \<^verbatim>\<open>run\<close> selects (those
  whose symbol in upper case is the symbol of the strategy) are all written with one
  spelling \<open>w\<close>, the selected series is in strictly ascending date order.
\<close>

lemma drop_duplicates_from_keys:
  "distinct (map (\<lambda>r. (symbol r, date r)) (drop_duplicates_from seen rs)) \<and>
   (\<forall>r\<in>set (drop_duplicates_from seen rs). (symbol r, date r) \<notin> set seen \<and> r \<in> set rs)"
proof (induction rs arbitrary: seen)
  case Nil
  then show ?case by simp
next
  case (Cons r rs)
  show ?case
  proof (cases "(symbol r, date r) \<in> set seen")
    case True
    then show ?thesis using Cons.IH[of seen] by auto
  next
    case False
    then show ?thesis using Cons.IH[of "(symbol r, date r) # seen"] by auto
  qed
qed

lemma loaded_rows_ascending:
  assumes "\<forall>r\<in>set raw. str_upper (symbol r) = tkr \<longrightarrow> symbol r = w"
  shows "sorted_wrt (<) (map date (symbol_rows tkr (load_and_validate_data raw)))"
proof -
  let ?key = "\<lambda>r :: price_row. (symbol r, date r)"
  let ?d = "drop_duplicates_from [] raw"
  let ?l = "load_and_validate_data raw"
  have l: "?l = sort_key ?key ?d" by (simp add: load_and_validate_data_def)
  have "distinct (map ?key ?d)" using drop_duplicates_from_keys[of "[]" raw] by blast
  then have "distinct (map ?key ?l)" unfolding l by (simp add: distinct_map)
  moreover have "sorted (map ?key ?l)" unfolding l by (rule sorted_sort_key)
  ultimately have "sorted_wrt (<) (map ?key ?l)" by (simp add: strict_sorted_iff)
  then have "sorted_wrt (\<lambda>x y. ?key x < ?key y) ?l"
    by (simp only: sorted_wrt_map)
  then have srt: "sorted_wrt (\<lambda>x y. ?key x < ?key y) (symbol_rows tkr ?l)"
    unfolding symbol_rows_def by (rule sorted_wrt_filter)
  have "set ?l \<subseteq> set raw"
    unfolding l using drop_duplicates_from_keys[of "[]" raw] by auto
  then have w: "\<forall>r\<in>set (symbol_rows tkr ?l). symbol r = w"
    using assms by (auto simp: symbol_rows_def)
  have "sorted_wrt (\<lambda>x y. date x < date y) (symbol_rows tkr ?l)"
  proof (rule sorted_wrt_mono_rel[OF _ srt])
    fix x y assume "x \<in> set (symbol_rows tkr ?l)" "y \<in> set (symbol_rows tkr ?l)"
      and "?key x < ?key y"
    with w show "date x < date y" by auto
  qed
  then show ?thesis by (simp only: sorted_wrt_map)
qed

lemma ex_ledger: "(case run ex_data ex_strategy of Inr st \<Rightarrow> ledger st | Inl e \<Rightarrow> []) =
  [ledger_entry ''ABC'' 1 (3 * ns_per_day) 94 (4 * ns_per_day) 104 ''rule_exit'']"
  by code_simp

lemma ex_sorted: "sorted_wrt (<) (map date (symbol_rows (strategy_symbol ex_strategy) ex_data))"
  by code_simp

lemma ex_daily: "\<forall>x\<in>set (symbol_rows (strategy_symbol ex_strategy) ex_data). date x mod ns_per_day = 0"
  by code_simp

lemma ex_spelling:
  "\<forall>r\<in>set ex_data. str_upper (symbol r) = strategy_symbol ex_strategy \<longrightarrow> symbol r = ''abc''"
  by code_simp

text \<open>
  Claim C10, as the code has it.  In \<^verbatim>\<open>Backtester.run\<close> the entry check and the exit
  check are the two branches of one \<^verbatim>\<open>if\<close>/\<^verbatim>\<open>elif\<close>: on a row that opens a position
  (flat, entry signal set) the step leaves the position open and appends nothing to the
  ledger, whatever the exit signal of that row.  Every ledger row of a run is therefore
  closed on a row of the series that comes strictly after the row that opened it.  When
  the series is in ascending date order, its entry date is strictly before its exit
  date, and on daily bars (timestamps at midnight) its holding period is at least one
  day.  The loader puts the series in ascending date order when all the rows of the
  instrument are written with one spelling of the symbol.
\<close>

theorem entry_day_never_exits:
  "(position st = 0 \<and> entry_signal r \<longrightarrow>
      (\<exists>st'. step tkr act st (i, r) = Inr st' \<and> position st' \<noteq> 0 \<and> ledger st' = ledger st)) \<and>
   (run data s = Inr fin \<and> t \<in> set (ledger fin) \<longrightarrow>
      spans_rows (map date (symbol_rows (strategy_symbol s) data)) t \<and>
      (sorted_wrt (<) (map date (symbol_rows (strategy_symbol s) data)) \<longrightarrow>
        (\<exists>a b. map_of t ''entry_date'' = Some (PTime a) \<and>
               map_of t ''exit_date'' = Some (PTime b) \<and> a < b \<and>
               ((\<forall>x\<in>set (symbol_rows (strategy_symbol s) data). date x mod ns_per_day = 0) \<longrightarrow>
                (\<exists>h\<ge>1. map_of t ''holding_days'' = Some (PInt h)))))) \<and>
   ((\<forall>x\<in>set raw. str_upper (symbol x) = strategy_symbol s \<longrightarrow> symbol x = w) \<longrightarrow>
      sorted_wrt (<) (map date (symbol_rows (strategy_symbol s) (load_and_validate_data raw))))"
proof (intro conjI impI)
  assume "position st = 0 \<and> entry_signal r"
  then show "\<exists>st'. step tkr act st (i, r) = Inr st' \<and> position st' \<noteq> 0 \<and> ledger st' = ledger st"
    by (simp add: step_def Let_def log_position_def)
next
  assume "run data s = Inr fin \<and> t \<in> set (ledger fin)"
  then show "spans_rows (map date (symbol_rows (strategy_symbol s) data)) t"
    using run_ledger_spans by blast
next
  let ?df = "symbol_rows (strategy_symbol s) data"
  assume a: "run data s = Inr fin \<and> t \<in> set (ledger fin)"
    and srt: "sorted_wrt (<) (map date ?df)"
  from a have "spans_rows (map date ?df) t" using run_ledger_spans by blast
  then obtain j k where jk: "j < length ?df" "k < j"
    "map_of t ''entry_date'' = Some (PTime (date (?df ! k)))"
    "map_of t ''exit_date'' = Some (PTime (date (?df ! j)))"
    "map_of t ''holding_days'' = Some (PInt (td_days (date (?df ! j) - date (?df ! k))))"
    unfolding spans_rows_def by auto
  have lt: "date (?df ! k) < date (?df ! j)"
    using sorted_wrt_nth_less[OF srt, of k j] jk(1,2) by simp
  have "(\<forall>x\<in>set ?df. date x mod ns_per_day = 0) \<longrightarrow>
        (\<exists>h\<ge>1. map_of t ''holding_days'' = Some (PInt h))"
  proof
    assume daily: "\<forall>x\<in>set ?df. date x mod ns_per_day = 0"
    with jk(1,2) have "date (?df ! k) mod ns_per_day = 0" "date (?df ! j) mod ns_per_day = 0"
      by simp_all
    with lt have "1 \<le> td_days (date (?df ! j) - date (?df ! k))" by (rule whole_days_between)
    with jk(5) show "\<exists>h\<ge>1. map_of t ''holding_days'' = Some (PInt h)" by blast
  qed
  with jk lt show "\<exists>a b. map_of t ''entry_date'' = Some (PTime a) \<and>
             map_of t ''exit_date'' = Some (PTime b) \<and> a < b \<and>
             ((\<forall>x\<in>set ?df. date x mod ns_per_day = 0) \<longrightarrow>
              (\<exists>h\<ge>1. map_of t ''holding_days'' = Some (PInt h)))"
    by blast
next
  assume "\<forall>x\<in>set raw. str_upper (symbol x) = strategy_symbol s \<longrightarrow> symbol x = w"
  then show "sorted_wrt (<) (map date (symbol_rows (strategy_symbol s) (load_and_validate_data raw)))"
    by (rule loaded_rows_ascending)
qed

theorem entry_day_never_exits_witness:
  "(\<exists>st'. step ''ABC'' ''buy'' sim_init (0, ex_both_row) = Inr st' \<and> position st' \<noteq> 0 \<and>
          ledger st' = []) \<and>
   spans_rows (map date (symbol_rows (strategy_symbol ex_strategy) ex_data))
     (ledger_entry ''ABC'' 1 (3 * ns_per_day) 94 (4 * ns_per_day) 104 ''rule_exit'') \<and>
   (\<exists>a b. map_of (ledger_entry ''ABC'' 1 (3 * ns_per_day) 94 (4 * ns_per_day) 104 ''rule_exit'')
             ''entry_date'' = Some (PTime a) \<and>
          map_of (ledger_entry ''ABC'' 1 (3 * ns_per_day) 94 (4 * ns_per_day) 104 ''rule_exit'')
             ''exit_date'' = Some (PTime b) \<and> a < b \<and>
          (\<exists>h\<ge>1. map_of (ledger_entry ''ABC'' 1 (3 * ns_per_day) 94 (4 * ns_per_day) 104
                             ''rule_exit'') ''holding_days'' = Some (PInt h))) \<and>
   sorted_wrt (<) (map date (symbol_rows (strategy_symbol ex_strategy)
                               (load_and_validate_data ex_data)))"
proof -
  let ?t = "ledger_entry ''ABC'' 1 (3 * ns_per_day) 94 (4 * ns_per_day) 104 ''rule_exit''"
  obtain fin where fin: "run ex_data ex_strategy = Inr fin"
    using ex_ledger by (cases "run ex_data ex_strategy") auto
  with ex_ledger have led: "t \<in> set (ledger fin)" if "t = ?t" for t using that by simp
  have st0: "position sim_init = 0 \<and> entry_signal ex_both_row"
    by (simp add: sim_init_def ex_both_row_def)
  show ?thesis
    using entry_day_never_exits
            [of sim_init ex_both_row "''ABC''" "''buy''" 0 ex_data ex_strategy fin ?t ex_data
                "''abc''"]
          st0 fin led ex_sorted ex_daily ex_spelling
    by (simp add: sim_init_def)
qed

text \<open>
  Claim C10, as the specification words it, fails: a trade can be opened and closed on
  the same day.  The file below quotes the instrument as \<open>ABC\<close> on day 0 and day 1 and
  as \<open>abc\<close> on day 1.  The loader keeps the three rows, since \<^verbatim>\<open>drop_duplicates\<close>
  compares the symbols as written, and sorts the two spellings apart; \<^verbatim>\<open>run\<close>
  selects all three, since it compares the symbols in upper case.  The position opened
  on the row \<open>ABC\<close> of day 1 is closed on the row \<open>abc\<close> of the same day, with a
  holding period of 0 days.
\<close>

theorem trade_opened_and_closed_same_day:
  "load_and_validate_data ex_mixed_raw =
     [bar ''ABC'' 0 100 100, bar ''ABC'' 1 94 94, bar ''abc'' 1 104 104] \<and>
   ledger_of (run (load_and_validate_data ex_mixed_raw) ex_strategy_daily) =
     [ledger_entry ''ABC'' 1 ns_per_day 94 ns_per_day 104 ''rule_exit''] \<and>
   map_of (ledger_entry ''ABC'' 1 ns_per_day 94 ns_per_day 104 ''rule_exit'') ''holding_days'' =
     Some (PInt 0)"
  by code_simp

section \<open>Properties of the trailing high\<close>

lemma series_shift_1: "series_shift 1 (x # xs) = NaN # butlast (x # xs)"
proof (rule nth_equalityI)
  show "length (series_shift 1 (x # xs)) = length (NaN # butlast (x # xs))"
    by (simp add: series_shift_def)
next
  fix i assume "i < length (series_shift 1 (x # xs))"
  then have i: "i < Suc (length xs)" by (simp add: series_shift_def)
  show "series_shift 1 (x # xs) ! i = (NaN # butlast (x # xs)) ! i"
  proof (cases i)
    case 0
    then show ?thesis using i by (simp add: series_shift_def nth_append del: upt_Suc)
  next
    case (Suc j)
    with i have "j < length xs" by simp
    then have "(NaN # butlast (x # xs)) ! i = (x # xs) ! j"
      using Suc by (simp add: nth_butlast del: butlast.simps)
    moreover have "series_shift 1 (x # xs) ! i = (x # xs) ! j"
      using i Suc unfolding series_shift_def
      by (simp add: Let_def del: upt_Suc)
    ultimately show ?thesis by simp
  qed
qed

lemma foldl_np_max_Fin: "foldl np_max (Fin a) (map Fin zs) = Fin (Max (set (a # zs)))"
proof (induction zs arbitrary: a)
  case Nil
  then show ?case by simp
next
  case (Cons z zs)
  have "np_max (Fin a) (Fin z) = Fin (max a z)"
    by (simp add: np_max_def max_def)
  then have "foldl np_max (Fin a) (map Fin (z # zs)) = Fin (Max (set (max a z # zs)))"
    using Cons.IH by simp
  also have "Max (set (max a z # zs)) = Max (set (a # z # zs))"
    by (cases "zs = []") (simp_all add: max.assoc)
  finally show ?case .
qed

lemma dropna_map_Fin: "dropna (map Fin zs) = map Fin zs"
  by (induction zs) (simp_all add: dropna_def)

lemma trailing_high_series_nth:
  assumes j: "j < length xs" and n: "0 < n"
  shows "trailing_high_series n xs ! j = trailing_high_spec n (take j xs)"
proof -
  from j obtain x xs' where xs: "xs = x # xs'" by (cases xs) auto
  let ?ys = "series_shift 1 (map Fin xs)"
  have ys: "?ys = NaN # map Fin (butlast xs)"
    using xs series_shift_1[of "Fin x" "map Fin xs'"] by (simp add: map_butlast)
  have len: "length ?ys = length xs" by (simp add: series_shift_def)
  have tk: "take (Suc j) ?ys = NaN # map Fin (take j xs)"
    using ys j by (simp add: take_map take_butlast)
  let ?w = "drop (j - n) (take j xs)"
  have win: "dropna (drop (Suc j - n) (take (Suc j) ?ys)) = map Fin ?w"
  proof (cases "j < n")
    case True
    then have "Suc j - n = 0" "j - n = 0" by simp_all
    then show ?thesis using tk by (simp add: dropna_def dropna_map_Fin[unfolded dropna_def])
  next
    case False
    then have "Suc j - n = Suc (j - n)" using n by simp
    then show ?thesis using tk by (simp add: drop_map dropna_map_Fin)
  qed
  have lw: "length (take j xs) = j" using j by simp
  have "rolling_max n ?ys ! j =
          (case map Fin ?w of [] \<Rightarrow> NaN | y # ys \<Rightarrow> foldl np_max y ys)"
    using j len win by (simp add: rolling_max_def del: upt_Suc)
  also have "\<dots> = trailing_high_spec n (take j xs)"
  proof (cases ?w)
    case Nil
    then have "j = 0" using j n by (cases j) auto
    then show ?thesis using Nil by (simp add: trailing_high_spec_def)
  next
    case (Cons a zs)
    then have "take j xs \<noteq> []" by (cases j) auto
    then show ?thesis using Cons lw foldl_np_max_Fin[of a zs]
      by (simp add: trailing_high_spec_def)
  qed
  finally show ?thesis by (simp add: trailing_high_series_def)
qed


lemma length_groupby_transform [simp]: "length (groupby_transform f df) = length df"
  by (simp add: groupby_transform_def)

lemma length_with_features [simp]: "length (with_features n df) = length df"
  by (simp add: with_features_def)

lemma filter_take_length:
  assumes "k < length df" "P (df ! k)"
  shows "length (filter P (take k df)) < length (filter P df)"
    and "take (length (filter P (take k df))) (filter P df) = filter P (take k df)"
proof -
  have "df = take k df @ df ! k # drop (Suc k) df"
    using assms(1) by (simp add: id_take_nth_drop)
  then have "filter P df = filter P (take k df) @ df ! k # filter P (drop (Suc k) df)"
    using assms(2) by (metis filter.simps(2) filter_append)
  then show "length (filter P (take k df)) < length (filter P df)"
    and "take (length (filter P (take k df))) (filter P df) = filter P (take k df)"
    by simp_all
qed

lemma filter_take_prior:
  assumes srt: "sorted_wrt (<) (map (\<lambda>r. (symbol r, date r)) df)" and k: "k < length df"
  shows "filter (\<lambda>r. symbol r = symbol (df ! k)) (take k df) = prior_rows df k"
proof -
  let ?key = "\<lambda>r. (symbol r, date r)"
  let ?P = "\<lambda>r. symbol r = symbol (df ! k) \<and> date r < date (df ! k)"
  have split: "df = take k df @ df ! k # drop (Suc k) df"
    using k by (simp add: id_take_nth_drop)
  have "sorted_wrt (<) (map ?key (take k df) @ map ?key (df ! k # drop (Suc k) df))"
    using srt split by (metis map_append)
  then have before: "\<forall>x\<in>set (take k df). ?key x < ?key (df ! k)"
    and after: "\<forall>y\<in>set (drop (Suc k) df). ?key (df ! k) < ?key y"
    by (auto simp: sorted_wrt_append)
  have a: "filter ?P (take k df) = filter (\<lambda>r. symbol r = symbol (df ! k)) (take k df)"
    using before by (intro filter_cong) auto
  have b: "filter ?P (df ! k # drop (Suc k) df) = []"
    using after by (auto simp: filter_empty_conv)
  have "prior_rows df k = filter ?P (take k df @ df ! k # drop (Suc k) df)"
    unfolding prior_rows_def using split by simp
  also have "\<dots> = filter ?P (take k df) @ filter ?P (df ! k # drop (Suc k) df)"
    by (rule filter_append)
  finally show ?thesis using a b by simp
qed

lemma with_features_nth:
  assumes srt: "sorted_wrt (<) (map (\<lambda>r. (symbol r, date r)) df)"
    and k: "k < length df" and n: "0 < n"
  shows "with_features n df ! k =
         \<lparr>date = date (df ! k), symbol = symbol (df ! k), open_price = open_price (df ! k),
          close = close (df ! k), sector = sector (df ! k),
          trailing_high = trailing_high_spec n (map close (prior_rows df k)),
          drop_from_high =
            np_sub (np_div (Fin (open_price (df ! k)))
                           (trailing_high_spec n (map close (prior_rows df k))))
                   (Fin 1)\<rparr>"
proof -
  let ?P = "\<lambda>r. symbol r = symbol (df ! k)"
  let ?j = "length (filter ?P (take k df))"
  have j: "?j < length (map close (filter ?P df))"
    using filter_take_length(1)[of k df ?P] k by simp
  have tk: "take ?j (map close (filter ?P df)) = map close (filter ?P (take k df))"
    using filter_take_length(2)[of k df ?P] k by (simp add: take_map)
  have "groupby_transform (trailing_high_series n) df ! k =
          trailing_high_series n (map close (filter ?P df)) ! ?j"
    using k by (simp add: groupby_transform_def Let_def del: upt_Suc)
  also have "\<dots> = trailing_high_spec n (take ?j (map close (filter ?P df)))"
    using j n by (rule trailing_high_series_nth)
  also have "\<dots> = trailing_high_spec n (map close (prior_rows df k))"
    using tk filter_take_prior[OF srt k] by simp
  finally show ?thesis
    using k by (simp add: with_features_def)
qed

lemma drop_not_nan:
  "np_le (np_sub (np_div a th) b) c \<Longrightarrow> th \<noteq> NaN"
  by (cases a; cases th) (auto simp: np_sub_def)

lemma candidate_has_prior:
  assumes srt: "sorted_wrt (<) (map (\<lambda>r. (symbol r, date r)) df)" and n: "0 < n"
    and r: "r \<in> set (with_features n df)"
    and le: "np_le (drop_from_high r) c"
  shows "\<exists>x\<in>set df. symbol x = symbol r \<and> date x < date r"
proof -
  from r obtain k where k: "k < length df" "r = with_features n df ! k"
    by (auto simp: in_set_conv_nth)
  note wf = with_features_nth[OF srt k(1) n]
  from le k(2) wf have "trailing_high_spec n (map close (prior_rows df k)) \<noteq> NaN"
    using drop_not_nan by simp
  then have "prior_rows df k \<noteq> []"
    by (auto simp: trailing_high_spec_def)
  then obtain x where "x \<in> set (prior_rows df k)" by (cases "prior_rows df k") auto
  then have "x \<in> set df" "symbol x = symbol (df ! k)" "date x < date (df ! k)"
    by (auto simp: prior_rows_def)
  with k(2) wf show ?thesis by auto
qed

text \<open>
  The portfolio loader sorts the table by symbol and date; when no two input rows share
  symbol and date, the rows of a sector are then in strictly ascending order of
  (symbol, date).  This is the order that the statements below assume.
\<close>

lemma prepared_panel_sorted:
  assumes "distinct (map (\<lambda>r. (symbol r, date r)) rows)"
  shows "sorted_wrt (<) (map (\<lambda>r. (symbol r, date r))
           (sector_rows p (load_and_prepare_data rows)))"
proof -
  let ?key = "\<lambda>r :: price_row. (symbol r, date r)"
  let ?s = "sort_key ?key rows"
  let ?l = "load_and_prepare_data rows"
  have keys: "map ?key ?l = map ?key ?s"
    by (simp add: load_and_prepare_data_def o_def)
  have "distinct (map ?key ?s)"
    using assms by (simp add: distinct_map)
  moreover have "sorted (map ?key ?s)" by (rule sorted_sort_key)
  ultimately have "sorted_wrt (<) (map ?key ?l)"
    unfolding keys by (simp add: strict_sorted_iff)
  then have "sorted_wrt (\<lambda>x y. ?key x < ?key y) ?l"
    by (simp only: sorted_wrt_map)
  then have "sorted_wrt (\<lambda>x y. ?key x < ?key y) (sector_rows p ?l)"
    unfolding sector_rows_def by (rule sorted_wrt_filter)
  then show ?thesis by (simp only: sorted_wrt_map)
qed

section \<open>Properties of the portfolio backtester\<close>

lemma set_delete_subset: "set (AList.delete k al) \<subseteq> set al"
  by (auto simp: AList.delete_eq)

lemma set_update_subset: "set (AList.update k v al) \<subseteq> insert (k, v) (set al)"
  by (induction al) auto

lemma length_update_le: "length (AList.update k v al) \<le> Suc (length al)"
  by (induction al) auto

lemma exit_position_effect:
  assumes "exit_position p d day st k = Inr st'"
  shows "set (positions st') \<subseteq> set (positions st) \<and>
         length (positions st') \<le> length (positions st) \<and>
         equity_curve st' = equity_curve st \<and>
         (trades st' = trades st \<or>
          (\<exists>t. trades st' = trades st @ [t] \<and> closed_by p d day (positions st) t))"
proof (cases "map_of (positions st) k")
  case None
  with assms show ?thesis by (simp add: exit_position_def)
next
  case (Some pos)
  then have mem: "(k, pos) \<in> set (positions st)" by (rule map_of_SomeD)
  show ?thesis
  proof (cases "filter (\<lambda>r. symbol r = k) day")
    case Nil
    with assms Some show ?thesis by (simp add: exit_position_def)
  next
    case (Cons r rest)
    then have "r \<in> set (filter (\<lambda>r. symbol r = k) day)" by simp
    then have r: "r \<in> set day" "symbol r = k" by auto
    let ?ret = "close r / entry_price pos - 1"
    from assms Some Cons have nz: "entry_price pos \<noteq> 0"
      by (auto simp: exit_position_def split: if_splits)
    consider (tp) "?ret \<ge> pf_take_profit p"
      | (sl) "\<not> ?ret \<ge> pf_take_profit p" "?ret \<le> - pf_stop_loss p"
      | (keep) "\<not> ?ret \<ge> pf_take_profit p" "\<not> ?ret \<le> - pf_stop_loss p"
      by blast
    then show ?thesis
    proof cases
      case tp
      with assms Some Cons nz
      have st': "st' = close_position d st k pos (close r) ?ret ''take_profit''"
        by (simp add: exit_position_def Let_def)
      have "closed_by p d day (positions st) (trade_entry k pos d (close r) ?ret ''take_profit'')"
        unfolding closed_by_def using mem r nz tp
        by (intro exI[of _ k] exI[of _ pos] exI[of _ r]) (simp add: Let_def)
      then show ?thesis
        using st' set_delete_subset[of k "positions st"] length_delete_le[of k "positions st"]
        by (simp add: close_position_def)
    next
      case sl
      with assms Some Cons nz
      have st': "st' = close_position d st k pos (close r) ?ret ''stop_loss''"
        by (simp add: exit_position_def Let_def)
      have "closed_by p d day (positions st) (trade_entry k pos d (close r) ?ret ''stop_loss'')"
        unfolding closed_by_def using mem r nz sl
        by (intro exI[of _ k] exI[of _ pos] exI[of _ r]) (simp add: Let_def)
      then show ?thesis
        using st' set_delete_subset[of k "positions st"] length_delete_le[of k "positions st"]
        by (simp add: close_position_def)
    next
      case keep
      with assms Some Cons nz have "st' = st"
        by (simp add: exit_position_def Let_def)
      then show ?thesis by simp
    qed
  qed
qed

lemma closed_by_mono: "closed_by p d day ps t \<Longrightarrow> set ps \<subseteq> set qs \<Longrightarrow> closed_by p d day qs t"
  unfolding closed_by_def by blast

lemma exit_all_effect:
  assumes "exit_all p d day st ks = Inr st'"
  shows "set (positions st') \<subseteq> set (positions st) \<and>
         length (positions st') \<le> length (positions st) \<and>
         equity_curve st' = equity_curve st \<and>
         (\<exists>ts. trades st' = trades st @ ts \<and> (\<forall>t\<in>set ts. closed_by p d day (positions st) t))"
  using assms
proof (induction ks arbitrary: st)
  case Nil
  then show ?case by simp
next
  case (Cons k ks)
  from Cons.prems obtain st1 where
    s1: "exit_position p d day st k = Inr st1" and s2: "exit_all p d day st1 ks = Inr st'"
    by (auto split: sum.splits)
  note e1 = exit_position_effect[OF s1]
  note e2 = Cons.IH[OF s2]
  from e2 obtain ts2 where ts2: "trades st' = trades st1 @ ts2"
    "\<forall>t\<in>set ts2. closed_by p d day (positions st1) t" by blast
  from e1 obtain ts1 where ts1: "trades st1 = trades st @ ts1"
    "\<forall>t\<in>set ts1. closed_by p d day (positions st) t" by auto
  have "trades st' = trades st @ (ts1 @ ts2)" using ts1 ts2 by simp
  moreover have "\<forall>t\<in>set (ts1 @ ts2). closed_by p d day (positions st) t"
    using ts1 ts2 e1 closed_by_mono by auto
  ultimately have "\<exists>ts. trades st' = trades st @ ts \<and>
      (\<forall>t\<in>set ts. closed_by p d day (positions st) t)" by blast
  with e1 e2 show ?case by auto
qed

lemma enter_position_effect:
  assumes "enter_position p d st r = Inr st'"
  shows "trades st' = trades st \<and> equity_curve st' = equity_curve st \<and>
         (st' = st \<or>
          (starting_capital p * allocation_per_trade p \<le> cash st \<and> open_price r \<noteq> 0 \<and>
           cash st' = cash st - starting_capital p * allocation_per_trade p \<and>
           positions st' = AList.update (fst (opened_by p d r)) (snd (opened_by p d r)) (positions st)))"
  using assms by (auto simp: enter_position_def Let_def opened_by_def split: if_splits)

lemma enter_all_effect:
  assumes "enter_all p d st rs = Inr st'"
  shows "trades st' = trades st \<and> equity_curve st' = equity_curve st \<and>
         set (positions st') \<subseteq> set (positions st) \<union> opened_by p d ` set rs \<and>
         length (positions st') \<le> length (positions st) + length rs"
  using assms
proof (induction rs arbitrary: st)
  case Nil
  then show ?case by simp
next
  case (Cons r rs)
  from Cons.prems obtain st1 where
    s1: "enter_position p d st r = Inr st1" and s2: "enter_all p d st1 rs = Inr st'"
    by (auto split: sum.splits)
  note e1 = enter_position_effect[OF s1]
  note e2 = Cons.IH[OF s2]
  have p1: "set (positions st1) \<subseteq> insert (opened_by p d r) (set (positions st))"
    using e1 set_update_subset[of "fst (opened_by p d r)" "snd (opened_by p d r)" "positions st"]
    by auto
  have l1: "length (positions st1) \<le> Suc (length (positions st))"
    using e1 length_update_le[of "fst (opened_by p d r)" "snd (opened_by p d r)" "positions st"]
    by auto
  from e1 e2 p1 l1 show ?case by auto
qed

lemma set_df_head: "set (df_head n xs) \<subseteq> set xs"
  by (auto simp: df_head_def dest: in_set_takeD)


lemma enter_day_effect:
  assumes "enter_day p d day st = Inr st'"
  shows "trades st' = trades st \<and> equity_curve st' = equity_curve st \<and>
         set (positions st') \<subseteq> set (positions st) \<union> opened_by p d ` set (candidates_of p day st)"
proof (cases "st' = st")
  case True
  then show ?thesis by simp
next
  case False
  with assms have
    "enter_all p d st (df_head (max_new_of p (length (positions st))) (candidates_of p day st)) = Inr st'"
    by (auto simp: enter_day_def Let_def split: if_splits)
  from enter_all_effect[OF this] set_df_head[of _ "candidates_of p day st"]
  show ?thesis by blast
qed



lemma day_step_parts:
  assumes "day_step p df st d = Inr st'"
  obtains st1 st2 where
    "exit_all p d (filter (\<lambda>r. date r = d) df) st (map fst (positions st)) = Inr st1"
    "enter_day p d (filter (\<lambda>r. date r = d) df) st1 = Inr st2"
    "st' = update_equity d (filter (\<lambda>r. date r = d) df) st2"
  using assms by (auto simp: day_step_def Let_def split: sum.splits)



lemma candidates_subset: "set (candidates_of p day st) \<subseteq>
   {r \<in> set day. np_le (drop_from_high r) (Fin (- drop_pct p))}"
  by (auto simp: candidates_of_def)

lemma day_step_effect:
  assumes "day_step p df st d = Inr st'"
  shows "(\<exists>ts. trades st' = trades st @ ts \<and>
             (\<forall>t\<in>set ts. closed_by p d (filter (\<lambda>r. date r = d) df) (positions st) t)) \<and>
         set (positions st') \<subseteq> set (positions st) \<union>
           opened_by p d ` {r \<in> set df. date r = d \<and> np_le (drop_from_high r) (Fin (- drop_pct p))}"
proof -
  let ?day = "filter (\<lambda>r. date r = d) df"
  from assms obtain st1 st2 where
    s1: "exit_all p d ?day st (map fst (positions st)) = Inr st1" and
    s2: "enter_day p d ?day st1 = Inr st2" and
    s3: "st' = update_equity d ?day st2"
    by (rule day_step_parts)
  note e1 = exit_all_effect[OF s1]
  note e2 = enter_day_effect[OF s2]
  have tr: "trades st' = trades st1" and ps: "positions st' = positions st2"
    using e2 s3 by (simp_all add: update_equity_def)
  have "set (positions st2) \<subseteq> set (positions st1) \<union>
          opened_by p d ` {r \<in> set ?day. np_le (drop_from_high r) (Fin (- drop_pct p))}"
    using e2 candidates_subset[of p ?day st1] by blast
  then have "set (positions st') \<subseteq> set (positions st) \<union>
           opened_by p d ` {r \<in> set df. date r = d \<and> np_le (drop_from_high r) (Fin (- drop_pct p))}"
    using e1 ps by auto
  with e1 tr show ?thesis by simp
qed


lemma closed_by_good:
  assumes "closed_by p d day ps t" and "\<forall>(k, pos)\<in>set ps. entry_date pos < d"
  shows "good_ptrade t"
  using assms unfolding closed_by_def good_ptrade_def
  by (fastforce simp: trade_entry_def ptrade_keys_def Let_def)

lemma run_days_dates:
  assumes "sorted_wrt (<) ds"
    and "\<forall>(k, pos)\<in>set (positions st). \<forall>d\<in>set ds. entry_date pos < d"
    and "\<forall>t\<in>set (trades st). good_ptrade t"
    and "run_days p df st ds = Inr st'"
  shows "\<forall>t\<in>set (trades st'). good_ptrade t"
  using assms
proof (induction ds arbitrary: st)
  case Nil
  then show ?case by simp
next
  case (Cons d ds)
  from Cons.prems(4) obtain st1 where
    s1: "day_step p df st d = Inr st1" and s2: "run_days p df st1 ds = Inr st'"
    by (auto split: sum.splits)
  from day_step_effect[OF s1] obtain ts where
    ts: "trades st1 = trades st @ ts"
        "\<forall>t\<in>set ts. closed_by p d (filter (\<lambda>r. date r = d) df) (positions st) t"
    and ps: "set (positions st1) \<subseteq> set (positions st) \<union>
           opened_by p d ` {r \<in> set df. date r = d \<and> np_le (drop_from_high r) (Fin (- drop_pct p))}"
    by blast
  have before: "\<forall>(k, pos)\<in>set (positions st). entry_date pos < d"
    using Cons.prems(2) by auto
  have later: "\<forall>d'\<in>set ds. d < d'" and srt: "sorted_wrt (<) ds"
    using Cons.prems(1) by auto
  have g1: "\<forall>t\<in>set (trades st1). good_ptrade t"
    using ts Cons.prems(3) closed_by_good[OF _ before] by auto
  have p1: "\<forall>(k, pos)\<in>set (positions st1). \<forall>d'\<in>set ds. entry_date pos < d'"
  proof (clarify)
    fix k pos d' assume kp: "(k, pos) \<in> set (positions st1)" and d': "d' \<in> set ds"
    from kp ps consider "(k, pos) \<in> set (positions st)"
      | r where "(k, pos) = opened_by p d r" by blast
    then show "entry_date pos < d'"
    proof cases
      case 1
      with Cons.prems(2) d' show ?thesis by auto
    next
      case 2
      then have "entry_date pos = d" by (simp add: opened_by_def)
      with later d' show ?thesis by simp
    qed
  qed
  from Cons.IH[OF srt p1 g1 s2] show ?case .
qed

lemma closed_by_after_first:
  assumes "closed_by p d day ps t" and "\<forall>(k, pos)\<in>set ps. entered_after_first df0 k (entry_date pos)"
  shows "trade_after_first df0 t"
  using assms unfolding closed_by_def trade_after_first_def
  by (fastforce simp: trade_entry_def Let_def)

lemma run_days_after_first:
  assumes srt: "sorted_wrt (<) (map (\<lambda>r. (symbol r, date r)) df0)" and n: "0 < n"
    and "\<forall>(k, pos)\<in>set (positions st). entered_after_first df0 k (entry_date pos)"
    and "\<forall>t\<in>set (trades st). trade_after_first df0 t"
    and "run_days p (with_features n df0) st ds = Inr st'"
  shows "(\<forall>(k, pos)\<in>set (positions st'). entered_after_first df0 k (entry_date pos)) \<and>
         (\<forall>t\<in>set (trades st'). trade_after_first df0 t)"
  using assms(3-)
proof (induction ds arbitrary: st)
  case Nil
  then show ?case by simp
next
  case (Cons d ds)
  let ?df = "with_features n df0"
  from Cons.prems(3) obtain st1 where
    s1: "day_step p ?df st d = Inr st1" and s2: "run_days p ?df st1 ds = Inr st'"
    by (auto split: sum.splits)
  from day_step_effect[OF s1] obtain ts where
    ts: "trades st1 = trades st @ ts"
        "\<forall>t\<in>set ts. closed_by p d (filter (\<lambda>r. date r = d) ?df) (positions st) t"
    and ps: "set (positions st1) \<subseteq> set (positions st) \<union>
           opened_by p d ` {r \<in> set ?df. date r = d \<and> np_le (drop_from_high r) (Fin (- drop_pct p))}"
    by blast
  have g1: "\<forall>t\<in>set (trades st1). trade_after_first df0 t"
    using ts Cons.prems(2) closed_by_after_first[OF _ Cons.prems(1)] by auto
  have p1: "\<forall>(k, pos)\<in>set (positions st1). entered_after_first df0 k (entry_date pos)"
  proof (clarify)
    fix k pos assume kp: "(k, pos) \<in> set (positions st1)"
    from kp ps consider "(k, pos) \<in> set (positions st)"
      | r where "(k, pos) = opened_by p d r" "r \<in> set ?df" "date r = d"
          "np_le (drop_from_high r) (Fin (- drop_pct p))" by blast
    then show "entered_after_first df0 k (entry_date pos)"
    proof cases
      case 1
      with Cons.prems(1) show ?thesis by auto
    next
      case 2
      from candidate_has_prior[OF srt n 2(2) 2(4)] 2(1,3)
      show ?thesis by (auto simp: opened_by_def entered_after_first_def)
    qed
  qed
  from Cons.IH[OF p1 g1 s2] show ?case .
qed






lemma max_new_nonneg:
  assumes "0 < allocation_per_trade p" "real k * allocation_per_trade p \<le> 1"
  shows "0 \<le> max_new_of p k"
  using assms by (simp add: max_new_of_def)





lemma ex_panel_sorted: "sorted_wrt (<) (map (\<lambda>r. (symbol r, date r)) ex_panel)"
  by code_simp

lemma ex_returns: "returns_state (run_sector_strategy ex_params ex_panel)"
  by code_simp

lemma ex_cands: "map symbol (candidates_of ex_params ex_day2 ex_state2) = [''BBB'', ''CCC'', ''DDD'']"
  by code_simp



lemma ex_prefix3_returns: "returns_state (run_days ex_params (with_features 5 ex_panel)
     (pstate_init ex_params) [0, ns_per_day, 2 * ns_per_day])"
  by code_simp

lemma returns_stateD: "returns_state res \<Longrightarrow> res = Inr (result_state res)"
  by (cases res) (simp_all add: returns_state_def result_state_def)



lemma ex_state2_reached:
  "exit_all ex_params (2 * ns_per_day) ex_day2
     (result_state (run_days ex_params (with_features 5 ex_panel) (pstate_init ex_params)
        [0, ns_per_day]))
     [''AAA''] = Inr ex_state2"
  by code_simp









text \<open>
  The entry block of a day either leaves the state as it is or runs this loop; in exact
  arithmetic its cap is \<open>max_new_of\<close>, which is not negative when the allocation is
  positive and the open positions are within it.
\<close>

lemma enter_day_head:
  assumes "enter_day p d day st = Inr st'"
  shows "st' = st \<or>
         enter_all p d st
           (df_head (max_new_of p (length (positions st))) (candidates_of p day st)) = Inr st'"
  using assms by (auto simp: enter_day_def Let_def split: if_splits)




section \<open>No lookahead in the entry features\<close>

lemma prior_rows_truncated:
  assumes "df' ! k' = df ! k"
    and "filter (\<lambda>r. date r \<le> date (df ! k)) df' = filter (\<lambda>r. date r \<le> date (df ! k)) df"
  shows "prior_rows df' k' = prior_rows df k"
proof -
  let ?t = "date (df ! k)"
  let ?P = "\<lambda>r. symbol r = symbol (df ! k) \<and> date r < ?t"
  have tr: "filter ?P xs = filter ?P (filter (\<lambda>r. date r \<le> ?t) xs)" for xs :: "price_row list"
    by (induction xs) auto
  have "filter ?P df' = filter ?P (filter (\<lambda>r. date r \<le> ?t) df')" by (rule tr)
  also have "\<dots> = filter ?P (filter (\<lambda>r. date r \<le> ?t) df)" by (simp only: assms(2))
  also have "\<dots> = filter ?P df" by (rule tr[symmetric])
  finally have "filter ?P df' = filter ?P df" .
  then show ?thesis using assms(1) by (simp add: prior_rows_def)
qed

lemma ex_trunc_sorted: "sorted_wrt (<) (map (\<lambda>r. (symbol r, date r)) ex_panel_to_day2)"
  by code_simp

lemma ex_trunc_row: "ex_panel_to_day2 ! 5 = ex_panel ! 6"
  by code_simp

lemma ex_trunc_filter:
  "filter (\<lambda>r. date r \<le> date (ex_panel ! 6)) ex_panel_to_day2 =
   filter (\<lambda>r. date r \<le> date (ex_panel ! 6)) ex_panel"
  by code_simp

lemma ex_lengths: "6 < length ex_panel" "5 < length ex_panel_to_day2"
  by code_simp code_simp

lemma ex_prior: "map close (prior_rows ex_panel 6) = [100, 100]"
  by code_simp

text \<open>
  Claim C1.  On a table sorted by symbol and date without duplicates, the trailing high
  of a row is the maximum close over the last \<open>lookback\<close> rows of the same instrument
  that are dated strictly before it (\<^verbatim>\<open>nan\<close> when there is none): the close of the
  day itself is never part of it.  The drop from the high is computed from the open of
  the day and this trailing high, so the features of a row, from which the entry
  eligibility of that day is decided, are the same on every table that has the same
  rows up to that date: nothing dated later is read.
\<close>

theorem trailing_high_uses_prior_days_only:
  assumes "sorted_wrt (<) (map (\<lambda>r. (symbol r, date r)) df)" and "k < length df" and "0 < n"
    and "sorted_wrt (<) (map (\<lambda>r. (symbol r, date r)) df')" and "k' < length df'"
    and "df' ! k' = df ! k"
    and "filter (\<lambda>r. date r \<le> date (df ! k)) df' = filter (\<lambda>r. date r \<le> date (df ! k)) df"
  shows "trailing_high (with_features n df ! k) =
           trailing_high_spec n (map close (prior_rows df k)) \<and>
         drop_from_high (with_features n df ! k) =
           np_sub (np_div (Fin (open_price (df ! k))) (trailing_high (with_features n df ! k)))
                  (Fin 1) \<and>
         with_features n df' ! k' = with_features n df ! k"
proof -
  note a = with_features_nth[OF assms(1,2,3)]
  note b = with_features_nth[OF assms(4,5,3)]
  have "prior_rows df' k' = prior_rows df k"
    using assms(6,7) by (rule prior_rows_truncated)
  with a b assms(6) show ?thesis by simp
qed

theorem trailing_high_uses_prior_days_only_witness:
  "trailing_high (with_features 5 ex_panel ! 6) = Fin 100 \<and>
   drop_from_high (with_features 5 ex_panel ! 6) =
     np_sub (np_div (Fin (open_price (ex_panel ! 6))) (Fin 100)) (Fin 1) \<and>
   with_features 5 ex_panel_to_day2 ! 5 = with_features 5 ex_panel ! 6"
proof -
  have n: "0 < (5::nat)" by simp
  have th: "trailing_high_spec 5 (map close (prior_rows ex_panel 6)) = Fin 100"
    unfolding ex_prior by (simp add: trailing_high_spec_def)
  note t = trailing_high_uses_prior_days_only
         [OF ex_panel_sorted ex_lengths(1) n ex_trunc_sorted ex_lengths(2) ex_trunc_row
             ex_trunc_filter]
  from t th have a: "trailing_high (with_features 5 ex_panel ! 6) = Fin 100"
    by (simp only:)
  from t have "drop_from_high (with_features 5 ex_panel ! 6) =
     np_sub (np_div (Fin (open_price (ex_panel ! 6)))
                    (trailing_high (with_features 5 ex_panel ! 6))) (Fin 1)"
    by blast
  then have b: "drop_from_high (with_features 5 ex_panel ! 6) =
     np_sub (np_div (Fin (open_price (ex_panel ! 6))) (Fin 100)) (Fin 1)"
    by (simp only: a)
  from t have c: "with_features 5 ex_panel_to_day2 ! 5 = with_features 5 ex_panel ! 6"
    by blast
  from a b c show ?thesis by blast
qed

lemma ex_first_row: "4 < length ex_panel \<and> prior_rows ex_panel 4 = []"
  by code_simp

lemma ex_prefix3_positions:
  "positions (result_state (run_days ex_params (with_features 5 ex_panel)
      (pstate_init ex_params) [0, ns_per_day, 2 * ns_per_day])) =
   [(''BBB'', \<lparr>entry_price = 90, shares = 5 / 9, entry_date = 2 * ns_per_day\<rparr>)]"
  by code_simp

text \<open>
  Claim C9.  On a table sorted by symbol and date without duplicates, the first row of
  an instrument has the trailing high \<^verbatim>\<open>nan\<close>, and the comparison of its drop from
  the high with \<open>- drop_pct\<close> is false (it raises nothing): the row is no candidate.
  Hence in every state that the day loop reaches from the initial state, each open
  position and each ledger row was entered at a date strictly after some bar of its
  instrument, never on the first date of that instrument.
\<close>

theorem no_entry_on_first_date:
  assumes "sorted_wrt (<) (map (\<lambda>r. (symbol r, date r)) df)" and "0 < n"
  shows "(k < length df \<and> prior_rows df k = [] \<longrightarrow>
            trailing_high (with_features n df ! k) = NaN \<and>
            \<not> np_le (drop_from_high (with_features n df ! k)) (Fin (- drop_pct p))) \<and>
         (run_days p (with_features n df) (pstate_init p) ds = Inr st \<longrightarrow>
            (\<forall>(s, pos)\<in>set (positions st). entered_after_first df s (entry_date pos)) \<and>
            (\<forall>t\<in>set (trades st). trade_after_first df t))"
proof (intro conjI impI)
  assume a: "k < length df \<and> prior_rows df k = []"
  then have wf: "trailing_high (with_features n df ! k) = NaN"
    "drop_from_high (with_features n df ! k) = np_sub (np_div (Fin (open_price (df ! k))) NaN) (Fin 1)"
    using with_features_nth[OF assms(1) _ assms(2), of k]
    by (simp_all add: trailing_high_spec_def)
  show "trailing_high (with_features n df ! k) = NaN" by (rule wf(1))
  show "\<not> np_le (drop_from_high (with_features n df ! k)) (Fin (- drop_pct p))"
    using wf(2) by (simp add: np_sub_def)
next
  assume r: "run_days p (with_features n df) (pstate_init p) ds = Inr st"
  have i1: "\<forall>(k, pos)\<in>set (positions (pstate_init p)). entered_after_first df k (entry_date pos)"
    and i2: "\<forall>t\<in>set (trades (pstate_init p)). trade_after_first df t"
    by (simp_all add: pstate_init_def)
  from run_days_after_first[OF assms i1 i2 r]
  show "\<forall>(s, pos)\<in>set (positions st). entered_after_first df s (entry_date pos)"
    and "\<forall>t\<in>set (trades st). trade_after_first df t" by blast+
qed

theorem no_entry_on_first_date_witness:
  "trailing_high (with_features 5 ex_panel ! 4) = NaN \<and>
   \<not> np_le (drop_from_high (with_features 5 ex_panel ! 4)) (Fin (- drop_pct ex_params)) \<and>
   entered_after_first ex_panel ''BBB'' (2 * ns_per_day)"
proof -
  let ?ds = "[0, ns_per_day, 2 * ns_per_day]"
  let ?res = "run_days ex_params (with_features 5 ex_panel) (pstate_init ex_params) ?ds"
  have n: "0 < (5::nat)" by simp
  have r: "?res = Inr (result_state ?res)"
    using ex_prefix3_returns by (rule returns_stateD)
  note t = no_entry_on_first_date[OF ex_panel_sorted n, of 4 ex_params ?ds "result_state ?res"]
  from t ex_first_row have a:
    "trailing_high (with_features 5 ex_panel ! 4) = NaN \<and>
     \<not> np_le (drop_from_high (with_features 5 ex_panel ! 4)) (Fin (- drop_pct ex_params))"
    by blast
  from t r have "\<forall>(s, pos)\<in>set (positions (result_state ?res)).
                   entered_after_first ex_panel s (entry_date pos)"
    by blast
  then have "entered_after_first ex_panel ''BBB'' (2 * ns_per_day)"
    unfolding ex_prefix3_positions by simp
  with a show ?thesis by blast
qed

section \<open>Ledger rows and exit reasons in both backtesters\<close>

lemma dates_of_sorted: "sorted_wrt (<) (dates_of df)"
  by (simp add: dates_of_def strict_sorted_iff)

lemma run_sector_strategy_good:
  assumes "run_sector_strategy p data = Inr st"
  shows "\<forall>t\<in>set (trades st). good_ptrade t"
proof -
  let ?df = "sector_rows p data"
  from assms have r: "run_days p (with_features (nat (lookback_days p)) ?df) (pstate_init p)
                        (dates_of ?df) = Inr st"
    by (simp add: run_sector_strategy_def Let_def split: if_splits)
  show ?thesis
    using dates_of_sorted _ _ r by (rule run_days_dates) (simp_all add: pstate_init_def)
qed

lemma ex_first_trade:
  "hd (trades (result_state (run_sector_strategy ex_params ex_panel))) =
   trade_entry ''AAA'' \<lparr>entry_price = 90, shares = 5 / 9, entry_date = ns_per_day\<rparr>
     (2 * ns_per_day) 45 (- (1 / 2)) ''stop_loss'' \<and>
   length (trades (result_state (run_sector_strategy ex_params ex_panel))) = 2"
  by code_simp

text \<open>
  Claim C4, as the code has it.  A ledger row of the single-instrument backtester has
  the keys symbol, side, entry date, entry price, exit date, exit price, return,
  holding days and exit reason; on a series in ascending date order its entry date is
  strictly before its exit date and its holding days are the whole days between them.
  A ledger row of the portfolio backtester has the keys symbol, entry date, exit date,
  entry price, exit price, return and exit reason only, and its entry date is strictly
  before its exit date.
\<close>

theorem ledger_rows_well_formed:
  "(sorted_wrt (<) (map date (symbol_rows (strategy_symbol s) data)) \<and>
    run data s = Inr fin \<and> t \<in> set (ledger fin) \<longrightarrow>
      map fst t = trade_keys \<and>
      (\<exists>a b. map_of t ''entry_date'' = Some (PTime a) \<and>
             map_of t ''exit_date'' = Some (PTime b) \<and> a < b \<and>
             map_of t ''holding_days'' = Some (PInt (td_days (b - a))))) \<and>
   (run_sector_strategy p pdata = Inr pfin \<and> t' \<in> set (trades pfin) \<longrightarrow>
      map fst t' = ptrade_keys \<and>
      (\<exists>a b. map_of t' ''entry_date'' = Some (PTime a) \<and>
             map_of t' ''exit_date'' = Some (PTime b) \<and> a < b))"
proof (intro conjI impI)
  assume a: "sorted_wrt (<) (map date (symbol_rows (strategy_symbol s) data)) \<and>
    run data s = Inr fin \<and> t \<in> set (ledger fin)"
  then obtain rows where g: "good_trade rows t"
    using run_ledger_good by blast
  from g show "map fst t = trade_keys" by (simp add: good_trade_def)
  from g show "\<exists>a b. map_of t ''entry_date'' = Some (PTime a) \<and>
             map_of t ''exit_date'' = Some (PTime b) \<and> a < b \<and>
             map_of t ''holding_days'' = Some (PInt (td_days (b - a)))"
    unfolding good_trade_def by blast
next
  assume a: "run_sector_strategy p pdata = Inr pfin \<and> t' \<in> set (trades pfin)"
  then have g: "good_ptrade t'" using run_sector_strategy_good by blast
  from g show "map fst t' = ptrade_keys" by (simp add: good_ptrade_def)
  from g show "\<exists>a b. map_of t' ''entry_date'' = Some (PTime a) \<and>
             map_of t' ''exit_date'' = Some (PTime b) \<and> a < b"
    unfolding good_ptrade_def by blast
qed

theorem ledger_rows_well_formed_witness:
  "map fst (ledger_entry ''ABC'' 1 (3 * ns_per_day) 94 (4 * ns_per_day) 104 ''rule_exit'')
     = trade_keys \<and>
   (\<exists>a b. map_of (ledger_entry ''ABC'' 1 (3 * ns_per_day) 94 (4 * ns_per_day) 104 ''rule_exit'')
             ''entry_date'' = Some (PTime a) \<and>
          map_of (ledger_entry ''ABC'' 1 (3 * ns_per_day) 94 (4 * ns_per_day) 104 ''rule_exit'')
             ''exit_date'' = Some (PTime b) \<and> a < b \<and>
          map_of (ledger_entry ''ABC'' 1 (3 * ns_per_day) 94 (4 * ns_per_day) 104 ''rule_exit'')
             ''holding_days'' = Some (PInt (td_days (b - a)))) \<and>
   map fst (hd (trades (result_state (run_sector_strategy ex_params ex_panel)))) = ptrade_keys \<and>
   (\<exists>a b. map_of (hd (trades (result_state (run_sector_strategy ex_params ex_panel))))
             ''entry_date'' = Some (PTime a) \<and>
          map_of (hd (trades (result_state (run_sector_strategy ex_params ex_panel))))
             ''exit_date'' = Some (PTime b) \<and> a < b)"
proof -
  let ?t = "ledger_entry ''ABC'' 1 (3 * ns_per_day) 94 (4 * ns_per_day) 104 ''rule_exit''"
  let ?res = "run_sector_strategy ex_params ex_panel"
  let ?t' = "hd (trades (result_state ?res))"
  obtain fin where fin: "run ex_data ex_strategy = Inr fin"
    using ex_ledger by (cases "run ex_data ex_strategy") auto
  with ex_ledger have led: "?t \<in> set (ledger fin)" by simp
  have r: "?res = Inr (result_state ?res)"
    using ex_returns by (rule returns_stateD)
  have "trades (result_state ?res) \<noteq> []" using ex_first_trade by auto
  then have tr: "?t' \<in> set (trades (result_state ?res))" by (rule hd_in_set)
  from ledger_rows_well_formed
         [of ex_strategy ex_data fin ?t ex_params ex_panel "result_state ?res" ?t']
       ex_sorted fin led r tr
  show ?thesis by blast
qed

text \<open>
  Claim C4 as stated fails in portfolio mode: the first row of the ledger of the example
  run has neither the key \<open>side\<close> nor the key \<open>holding_days\<close>.
\<close>

theorem portfolio_ledger_without_side_and_holding_days:
  "hd (trades (result_state (run_sector_strategy ex_params ex_panel))) =
     [(''symbol'', PStr ''AAA''), (''entry_date'', PTime ns_per_day),
      (''exit_date'', PTime (2 * ns_per_day)), (''entry_price'', PFloat (Fin 90)),
      (''exit_price'', PFloat (Fin 45)), (''return'', PFloat (Fin (- (1 / 2)))),
      (''exit_reason'', PStr ''stop_loss'')] \<and>
   map_of (hd (trades (result_state (run_sector_strategy ex_params ex_panel)))) ''side'' = None \<and>
   map_of (hd (trades (result_state (run_sector_strategy ex_params ex_panel))))
     ''holding_days'' = None"
  using ex_first_trade by (simp add: trade_entry_def)

text \<open>
  With the pathological thresholds of the example strategy, row 3 of the series has both
  exit columns set, and the run closes its trade there with the reason
  \<open>take_profit\<close>.
\<close>

lemma ex_both_rows:
  "signal_rows ex_strategy_both (symbol_rows ''ABC'' ex_data) =
   Inr (rows_of (signal_rows ex_strategy_both (symbol_rows ''ABC'' ex_data)))"
  by code_simp

lemma ex_both_flags:
  "exit_reason_tp (rows_of (signal_rows ex_strategy_both (symbol_rows ''ABC'' ex_data)) ! 3) \<and>
   exit_reason_sl (rows_of (signal_rows ex_strategy_both (symbol_rows ''ABC'' ex_data)) ! 3) \<and>
   3 < length (rows_of (signal_rows ex_strategy_both (symbol_rows ''ABC'' ex_data)))"
  by code_simp

lemma ex_both_ledger:
  "(case run ex_data ex_strategy_both of Inr st \<Rightarrow> ledger st | Inl e \<Rightarrow> []) =
   [ledger_entry ''ABC'' 1 (2 * ns_per_day) 94 (3 * ns_per_day) 94 ''take_profit'']"
  by code_simp

lemma ex_held_bar:
  "filter (\<lambda>x. symbol x = ''AAA'') ex_day2 = [ex_day2 ! 0] \<and> close (ex_day2 ! 0) = 45"
  by code_simp

text \<open>
  Claim C2.  In \<^verbatim>\<open>Backtester.run\<close>, on a row of the signal table where one of the
  three exit columns is set while a position is open, the step closes the position and
  appends a ledger row whose exit reason is \<open>take_profit\<close> when the take-profit
  column is set, otherwise \<open>stop_loss\<close> when the stop-loss column is set, otherwise
  \<open>rule_exit\<close>: on a row where the take-profit and the stop-loss columns are both
  set it is \<open>take_profit\<close>.  In \<^verbatim>\<open>run_sector_strategy\<close>, when the return of an
  open position on today's close is at least \<open>take_profit\<close> or at most
  \<open>- stop_loss\<close>, the exit loop closes it and appends a ledger row whose exit reason
  is \<open>take_profit\<close> in the first case, also when both hold, and \<open>stop_loss\<close>
  otherwise.
\<close>

theorem take_profit_reported_first:
  "(position st \<noteq> 0 \<and> sim_entry_price st = Some e_price \<and> sim_entry_date st = Some e_date \<and>
    signal_rows s df = Inr rows \<and> r \<in> set rows \<and>
    (exit_reason_tp r \<or> exit_reason_sl r \<or> exit_reason_base r) \<longrightarrow>
      (\<exists>st' t. step tkr act st (i, r) = Inr st' \<and> ledger st' = ledger st @ [t] \<and>
               position st' = 0 \<and>
               map_of t ''exit_reason'' =
                 Some (PStr (if exit_reason_tp r then ''take_profit''
                             else if exit_reason_sl r then ''stop_loss''
                             else ''rule_exit'')))) \<and>
   (map_of (positions pst) k = Some pos \<and> filter (\<lambda>x. symbol x = k) day = b # rest \<and>
    entry_price pos \<noteq> 0 \<and>
    (pf_take_profit p \<le> close b / entry_price pos - 1 \<or>
     close b / entry_price pos - 1 \<le> - pf_stop_loss p) \<longrightarrow>
      (\<exists>pst' t. exit_position p d day pst k = Inr pst' \<and> trades pst' = trades pst @ [t] \<and>
                k \<notin> fst ` set (positions pst') \<and>
                map_of t ''exit_reason'' =
                  Some (PStr (if pf_take_profit p \<le> close b / entry_price pos - 1
                              then ''take_profit'' else ''stop_loss''))))"
proof (intro conjI impI)
  assume a: "position st \<noteq> 0 \<and> sim_entry_price st = Some e_price \<and>
    sim_entry_date st = Some e_date \<and> signal_rows s df = Inr rows \<and> r \<in> set rows \<and>
    (exit_reason_tp r \<or> exit_reason_sl r \<or> exit_reason_base r)"
  then have x: "exit_signal r" using exit_signal_signal_rows[of s df rows r] by blast
  let ?reason = "if exit_reason_tp r then ''take_profit''
                 else if exit_reason_sl r then ''stop_loss'' else ''rule_exit''"
  let ?t = "ledger_entry tkr (side st) e_date e_price (row_date r) (row_close r) ?reason"
  let ?st = "log_position
               (st\<lparr>ledger := ledger st @ [?t],
                   position := 0, entry_idx := None, sim_entry_price := None,
                   sim_entry_date := None, side := 0\<rparr>)"
  have s: "step tkr act st (i, r) = Inr ?st"
    using a x by (simp add: step_def Let_def exit_reason_of_def)
  have l: "ledger ?st = ledger st @ [?t]" "position ?st = 0"
    by (simp_all add: log_position_def)
  have m: "map_of ?t ''exit_reason'' = Some (PStr ?reason)"
    by (simp add: ledger_entry_def)
  from s l m show "\<exists>st' t. step tkr act st (i, r) = Inr st' \<and> ledger st' = ledger st @ [t] \<and>
               position st' = 0 \<and> map_of t ''exit_reason'' = Some (PStr ?reason)"
    by blast
next
  let ?ret = "close b / entry_price pos - 1"
  assume a: "map_of (positions pst) k = Some pos \<and> filter (\<lambda>x. symbol x = k) day = b # rest \<and>
    entry_price pos \<noteq> 0 \<and> (pf_take_profit p \<le> ?ret \<or> ?ret \<le> - pf_stop_loss p)"
  let ?reason = "if pf_take_profit p \<le> ?ret then ''take_profit'' else ''stop_loss''"
  let ?pst = "close_position d pst k pos (close b) ?ret ?reason"
  from a have e: "exit_position p d day pst k = Inr ?pst"
    by (auto simp: exit_position_def Let_def)
  have "k \<notin> fst ` set (positions ?pst)"
    by (simp add: close_position_def delete_notin_dom)
  moreover have "trades ?pst = trades pst @ [trade_entry k pos d (close b) ?ret ?reason]"
    by (simp add: close_position_def)
  moreover have "map_of (trade_entry k pos d (close b) ?ret ?reason) ''exit_reason'' =
                   Some (PStr ?reason)"
    by (simp add: trade_entry_def)
  ultimately show "\<exists>pst' t. exit_position p d day pst k = Inr pst' \<and>
                trades pst' = trades pst @ [t] \<and>
                k \<notin> fst ` set (positions pst') \<and>
                map_of t ''exit_reason'' = Some (PStr ?reason)"
    using e by blast
qed

theorem take_profit_reported_first_witness:
  "(\<exists>st' t. step ''ABC'' ''buy'' ex_open_sim
              (3, rows_of (signal_rows ex_strategy_both (symbol_rows ''ABC'' ex_data)) ! 3)
              = Inr st' \<and>
            ledger st' = ledger ex_open_sim @ [t] \<and> position st' = 0 \<and>
            map_of t ''exit_reason'' = Some (PStr ''take_profit'')) \<and>
   (\<exists>pst' t. exit_position ex_params_both (2 * ns_per_day) ex_day2 ex_held ''AAA'' = Inr pst' \<and>
             trades pst' = trades ex_held @ [t] \<and> ''AAA'' \<notin> fst ` set (positions pst') \<and>
             map_of t ''exit_reason'' = Some (PStr ''take_profit''))"
proof -
  let ?rows = "rows_of (signal_rows ex_strategy_both (symbol_rows ''ABC'' ex_data))"
  let ?pos = "\<lparr>entry_price = 90, shares = 5 / 9, entry_date = ns_per_day\<rparr>"
  have mem: "?rows ! 3 \<in> set ?rows" using ex_both_flags by (intro nth_mem) blast
  have tp: "exit_reason_tp (?rows ! 3)" using ex_both_flags by blast
  have a: "position ex_open_sim \<noteq> 0 \<and> sim_entry_price ex_open_sim = Some 94 \<and>
           sim_entry_date ex_open_sim = Some (2 * ns_per_day)"
    by (simp add: ex_open_sim_def)
  have b: "map_of (positions ex_held) ''AAA'' = Some ?pos \<and> entry_price ?pos \<noteq> 0"
    by (simp add: ex_held_def)
  have c: "pf_take_profit ex_params_both \<le> close (ex_day2 ! 0) / entry_price ?pos - 1"
    using ex_held_bar by (simp add: ex_params_both_def)
  have f: "filter (\<lambda>x. symbol x = ''AAA'') ex_day2 = [ex_day2 ! 0]"
    using ex_held_bar by blast
  from take_profit_reported_first
         [of ex_open_sim 94 "2 * ns_per_day" ex_strategy_both
             "symbol_rows ''ABC'' ex_data" ?rows "?rows ! 3" "''ABC''" "''buy''" 3
             ex_held "''AAA''" ?pos ex_day2 "ex_day2 ! 0" "[]" ex_params_both "2 * ns_per_day"]
       mem tp a b c f ex_both_rows
  show ?thesis by simp
qed

section \<open>Properties of the metrics\<close>

lemma foldl_np_add_Fin:
  "\<forall>x\<in>set xs. \<exists>v. x = Fin v \<Longrightarrow>
   foldl np_add (Fin a) xs = Fin (a + sum_list (finite_values xs))"
  by (induction xs arbitrary: a) (auto simp: finite_values_def add.assoc)

lemma dropna_all_Fin: "\<forall>x\<in>set xs. \<exists>v. x = Fin v \<Longrightarrow> dropna xs = xs"
  by (induction xs) (auto simp: dropna_def)

lemma series_sum_Fin:
  "\<forall>x\<in>set xs. \<exists>v. x = Fin v \<Longrightarrow> series_sum xs = Fin (sum_list (finite_values xs))"
  by (simp add: series_sum_def np_sum_def dropna_all_Fin foldl_np_add_Fin)

lemma np_gt_Fin [simp]: "np_gt (Fin a) (Fin b) = (b < a)"
  by (auto simp: np_gt_def np_lt_def)

lemma sum_list_pos_values:
  "xs \<noteq> [] \<Longrightarrow> \<forall>x\<in>set xs. \<exists>v>0. x = Fin v \<Longrightarrow> 0 < sum_list (finite_values xs)"
proof (induction xs)
  case Nil
  then show ?case by simp
next
  case (Cons x xs)
  then obtain v where v: "x = Fin v" "0 < v" by auto
  show ?case
  proof (cases "xs = []")
    case True
    with v show ?thesis by (simp add: finite_values_def)
  next
    case False
    with Cons have "0 < sum_list (finite_values xs)" by auto
    with v show ?thesis by (simp add: finite_values_def)
  qed
qed

lemma sum_list_zero_values:
  "\<forall>x\<in>set xs. x = Fin 0 \<Longrightarrow> sum_list (finite_values xs) = 0"
  by (induction xs) (auto simp: finite_values_def)

lemma profit_factor_inf:
  assumes ne: "df \<noteq> []"
    and nonneg: "\<forall>row\<in>set df. \<exists>x\<ge>0. map_of row ''return'' = Some (PFloat (Fin x))"
    and win: "\<exists>row\<in>set df. \<exists>x>0. map_of row ''return'' = Some (PFloat (Fin x))"
  shows "\<exists>m. extra_metrics_from_trades (Some df) = Inr m \<and> profit_factor m = PInf"
proof -
  let ?r = "float_column ''return'' df"
  let ?wins = "filter (\<lambda>x. np_gt x (Fin 0)) ?r"
  let ?losses = "filter (\<lambda>x. np_le x (Fin 0)) ?r"
  have rF: "\<forall>x\<in>set ?r. \<exists>v\<ge>0. x = Fin v"
    using nonneg by (fastforce simp: float_column_def)
  have keys: "\<forall>row\<in>set df. ''return'' \<in> set (map fst row)"
  proof
    fix row assume "row \<in> set df"
    with nonneg obtain x where "map_of row ''return'' = Some (PFloat (Fin x))" by blast
    then have "(''return'', PFloat (Fin x)) \<in> set row" by (rule map_of_SomeD)
    then show "''return'' \<in> set (map fst row)" by force
  qed
  from ne obtain row0 where row0: "row0 \<in> set df" by (cases df) auto
  have col: "has_column ''return'' df"
    using keys row0 by (auto simp: has_column_def list_ex_iff)
  have nonempty: "\<not> df_empty df"
    using keys ne row0 by (fastforce simp: df_empty_def list_all_iff)
  have winsF: "\<forall>x\<in>set ?wins. \<exists>v>0. x = Fin v"
    using rF by auto
  have wins_ne: "?wins \<noteq> []"
  proof -
    from win obtain row x where "row \<in> set df" "0 < x"
      "map_of row ''return'' = Some (PFloat (Fin x))" by blast
    then have "Fin x \<in> set ?r" by (force simp: float_column_def)
    with \<open>0 < x\<close> have "Fin x \<in> set ?wins" by simp
    then show ?thesis by (metis empty_iff empty_set)
  qed
  have lossesF: "\<forall>x\<in>set ?losses. x = Fin 0"
    using rF by auto
  have gp: "series_sum ?wins = Fin (sum_list (finite_values ?wins))"
    using winsF by (intro series_sum_Fin) blast
  have gp_pos: "0 < sum_list (finite_values ?wins)"
    using wins_ne winsF by (rule sum_list_pos_values)
  have gl: "series_sum ?losses = Fin 0"
    using lossesF series_sum_Fin[of ?losses] sum_list_zero_values[of ?losses] by auto
  show ?thesis
    using col nonempty wins_ne gp gp_pos gl
    by (simp add: extra_metrics_from_trades_def Let_def)
qed

text \<open>
  Claim C8.  For an empty trade ledger (\<^verbatim>\<open>None\<close>, or a table without rows)
  \<^verbatim>\<open>_extra_metrics_from_trades\<close> raises nothing and returns win rate, profit factor,
  expectancy and median holding days all equal to 0.0.  For a ledger that is not empty,
  whose returns are finite and not negative (so the gross loss is zero) and one of them
  positive (so the gross profit is positive), it raises nothing and the profit factor
  is \<^verbatim>\<open>inf\<close>.
\<close>

theorem metrics_empty_ledger_and_infinite_profit_factor:
  "extra_metrics_from_trades None =
     Inr \<lparr>win_rate = Fin 0, avg_win = Fin 0, avg_loss = Fin 0, profit_factor = Fin 0,
          expectancy = Fin 0, median_hold = Fin 0\<rparr> \<and>
   extra_metrics_from_trades (Some []) =
     Inr \<lparr>win_rate = Fin 0, avg_win = Fin 0, avg_loss = Fin 0, profit_factor = Fin 0,
          expectancy = Fin 0, median_hold = Fin 0\<rparr> \<and>
   (df \<noteq> [] \<and>
    (\<forall>row\<in>set df. \<exists>x\<ge>0. map_of row ''return'' = Some (PFloat (Fin x))) \<and>
    (\<exists>row\<in>set df. \<exists>x>0. map_of row ''return'' = Some (PFloat (Fin x)))
    \<longrightarrow> (\<exists>m. extra_metrics_from_trades (Some df) = Inr m \<and> profit_factor m = PInf))"
proof (intro conjI impI)
  show "extra_metrics_from_trades None =
     Inr \<lparr>win_rate = Fin 0, avg_win = Fin 0, avg_loss = Fin 0, profit_factor = Fin 0,
          expectancy = Fin 0, median_hold = Fin 0\<rparr>"
    by (simp add: extra_metrics_from_trades_def zero_metrics_def)
next
  show "extra_metrics_from_trades (Some []) =
     Inr \<lparr>win_rate = Fin 0, avg_win = Fin 0, avg_loss = Fin 0, profit_factor = Fin 0,
          expectancy = Fin 0, median_hold = Fin 0\<rparr>"
    by (simp add: extra_metrics_from_trades_def df_empty_def zero_metrics_def)
next
  assume "df \<noteq> [] \<and>
    (\<forall>row\<in>set df. \<exists>x\<ge>0. map_of row ''return'' = Some (PFloat (Fin x))) \<and>
    (\<exists>row\<in>set df. \<exists>x>0. map_of row ''return'' = Some (PFloat (Fin x)))"
  then show "\<exists>m. extra_metrics_from_trades (Some df) = Inr m \<and> profit_factor m = PInf"
    using profit_factor_inf by blast
qed

theorem metrics_empty_ledger_and_infinite_profit_factor_witness:
  "\<exists>m. extra_metrics_from_trades
          (Some [[(''return'', PFloat (Fin (1 / 10))), (''holding_days'', PInt 3)],
                 [(''return'', PFloat (Fin 0)), (''holding_days'', PInt 1)]]) = Inr m \<and>
       profit_factor m = PInf"
proof -
  let ?df = "[[(''return'', PFloat (Fin (1 / 10))), (''holding_days'', PInt 3)],
              [(''return'', PFloat (Fin 0)), (''holding_days'', PInt 1)]]"
  have a: "\<exists>x\<ge>0. Fin (1 / 10) = Fin x" by (rule exI[of _ "1 / 10"]) simp
  have b: "\<exists>x>0. Fin (1 / 10) = Fin x" by (rule exI[of _ "1 / 10"]) simp
  have h: "?df \<noteq> [] \<and>
    (\<forall>row\<in>set ?df. \<exists>x\<ge>0. map_of row ''return'' = Some (PFloat (Fin x))) \<and>
    (\<exists>row\<in>set ?df. \<exists>x>0. map_of row ''return'' = Some (PFloat (Fin x)))"
    using a b by simp
  show ?thesis
    using metrics_empty_ledger_and_infinite_profit_factor [of ?df] h by blast
qed

lemma np_sub_zero [simp]: "np_sub x (Fin 0) = x"
  by (cases x) (simp_all add: np_sub_def)

lemma np_eq_Fin0: "np_eq a (Fin 0) = (a = Fin 0)"
  by (auto simp: np_eq_def)

lemma scale_div_commute:
  "0 < c \<Longrightarrow> np_div (np_mul (Fin c) m) s = np_mul (np_div m s) (Fin c)"
  by (cases m; cases s) (auto simp: inf_of_sign_def zero_less_mult_iff mult_less_0_iff)

lemma daily_rf_pos: "0 < (1 + 2 / 100) powr (1 / 252) - (1::real)"
proof -
  have "((1::real) + 2 / 100) powr 0 < (1 + 2 / 100) powr (1 / 252)"
    by (rule powr_less_mono) simp_all
  then have "(1::real) < (1 + 2 / 100) powr (1 / 252)" by simp
  then show ?thesis by simp
qed

text \<open>
  The two reductions in exact arithmetic on three returns of 0, and on the returns
  -1 percent and 1 percent, where the deviation is not 0 and the formula with the annual
  rate 2 percent has a negative value.
\<close>

lemma ex_std_zero: "series_std [Fin 0, Fin 0, Fin 0] = Fin 0"
  by (simp add: series_std_def dropna_def np_sum_def np_sub_def Let_def)

lemma ex_std_nonzero: "series_std [Fin (- (1 / 100)), Fin (1 / 100)] \<noteq> Fin 0"
  by (simp add: series_std_def dropna_def np_sum_def np_sub_def Let_def)

lemma ex_sharpe_value:
  "sharpe_spec series_std series_mean (2 / 100) [Fin (- (1 / 100)), Fin (1 / 100)] =
   Fin (sqrt 252 * (- ((1 + 2 / 100) powr (1 / 252) - 1)) / sqrt (1 / 5000))"
proof -
  define dr :: real where "dr = (1 + 2 / 100) powr (1 / 252) - 1"
  let ?ex = "[Fin (- (1 / 100) - dr), Fin (1 / 100 - dr)]"
  have m: "series_mean ?ex = Fin (- dr)"
    by (simp add: series_mean_def dropna_def np_sum_def Let_def)
  have "(- (1 / 100) - dr - (- (1 / 100) - dr + (1 / 100 - dr)) / 2) *
        (- (1 / 100) - dr - (- (1 / 100) - dr + (1 / 100 - dr)) / 2) +
        (1 / 100 - dr - (- (1 / 100) - dr + (1 / 100 - dr)) / 2) *
        (1 / 100 - dr - (- (1 / 100) - dr + (1 / 100 - dr)) / 2) = 1 / 5000"
    by (simp add: field_simps)
  then have sd: "series_std ?ex = Fin (sqrt (1 / 5000))"
    by (simp add: series_std_def dropna_def np_sum_def np_sub_def Let_def)
  have "sharpe_spec series_std series_mean (2 / 100) [Fin (- (1 / 100)), Fin (1 / 100)] =
        np_div (np_mul (Fin (sqrt 252)) (series_mean ?ex)) (series_std ?ex)"
    using ex_std_nonzero by (simp add: sharpe_spec_def Let_def np_sub_def dr_def)
  also have "\<dots> = Fin (sqrt 252 * (- dr) / sqrt (1 / 5000))"
    unfolding m sd by simp
  finally show ?thesis unfolding dr_def .
qed

text \<open>
  Claim C7, as the code has it.  Whatever values the library computes for the standard
  deviation and the mean: \<^verbatim>\<open>calculate_sharpe_ratio\<close> returns 0 when the computed
  standard deviation of the returns is 0, and otherwise \<open>sqrt 252\<close> times the mean of
  the excess returns over their standard deviation, the excess return being the return
  minus the daily rate \<open>(1 + annual_rf) powr (1 / 252) - 1\<close> (for an annual rate of at
  least \<open>-1\<close>).  The Sharpe ratio of \<^verbatim>\<open>ReportGenerator.summary\<close> returns 0 in the
  same case and subtracts no risk-free rate: it is that formula for the annual rate 0.
\<close>

theorem sharpe_ratio_of_both_reports:
  "(- 1 \<le> rf \<longrightarrow>
      calculate_sharpe_ratio std_of mean_of rets rf =
        Some (sharpe_spec std_of mean_of rf rets)) \<and>
   summary_sharpe std_of mean_of rets = sharpe_spec std_of mean_of 0 rets \<and>
   (std_of rets = Fin 0 \<longrightarrow>
      calculate_sharpe_ratio std_of mean_of rets rf = Some (Fin 0) \<and>
      summary_sharpe std_of mean_of rets = Fin 0)"
proof (intro conjI impI)
  assume "- 1 \<le> rf"
  then show "calculate_sharpe_ratio std_of mean_of rets rf =
               Some (sharpe_spec std_of mean_of rf rets)"
    by (simp add: calculate_sharpe_ratio_def sharpe_spec_def daily_rf_of_def np_eq_Fin0 Let_def)
next
  have "(0::real) < sqrt 252" by simp
  then show "summary_sharpe std_of mean_of rets = sharpe_spec std_of mean_of 0 rets"
    by (simp add: summary_sharpe_def sharpe_spec_def np_eq_Fin0 scale_div_commute)
next
  assume "std_of rets = Fin 0"
  then show "calculate_sharpe_ratio std_of mean_of rets rf = Some (Fin 0)"
    by (simp add: calculate_sharpe_ratio_def np_eq_def)
next
  assume "std_of rets = Fin 0"
  then show "summary_sharpe std_of mean_of rets = Fin 0"
    by (simp add: summary_sharpe_def np_eq_def)
qed

theorem sharpe_ratio_of_both_reports_witness:
  "calculate_sharpe_ratio series_std series_mean [Fin 0, Fin 0, Fin 0] (2 / 100) = Some (Fin 0) \<and>
   summary_sharpe series_std series_mean [Fin 0, Fin 0, Fin 0] = Fin 0 \<and>
   calculate_sharpe_ratio series_std series_mean [Fin (- (1 / 100)), Fin (1 / 100)] (2 / 100) =
     Some (Fin (sqrt 252 * (- ((1 + 2 / 100) powr (1 / 252) - 1)) / sqrt (1 / 5000)))"
proof -
  have r: "- 1 \<le> (2 / 100 :: real)" by simp
  note t1 = sharpe_ratio_of_both_reports
              [of "2 / 100" series_std series_mean "[Fin 0, Fin 0, Fin 0]"]
  note t2 = sharpe_ratio_of_both_reports
              [of "2 / 100" series_std series_mean "[Fin (- (1 / 100)), Fin (1 / 100)]"]
  from t1 ex_std_zero have
    "calculate_sharpe_ratio series_std series_mean [Fin 0, Fin 0, Fin 0] (2 / 100) = Some (Fin 0)"
    "summary_sharpe series_std series_mean [Fin 0, Fin 0, Fin 0] = Fin 0"
    by blast+
  moreover from t2 r have
    "calculate_sharpe_ratio series_std series_mean [Fin (- (1 / 100)), Fin (1 / 100)] (2 / 100) =
     Some (sharpe_spec series_std series_mean (2 / 100) [Fin (- (1 / 100)), Fin (1 / 100)])"
    by blast
  ultimately show ?thesis unfolding ex_sharpe_value by blast
qed

text \<open>
  Claim C7 as stated fails for \<^verbatim>\<open>ReportGenerator.summary\<close>: on the returns -1 percent
  and 1 percent it prints the Sharpe ratio 0, while the formula of the claim, with the
  annual rate 2 percent of the workflow, is not 0.
\<close>

theorem summary_sharpe_ignores_risk_free_rate:
  "summary_sharpe series_std series_mean [Fin (- (1 / 100)), Fin (1 / 100)] = Fin 0 \<and>
   sharpe_spec series_std series_mean (2 / 100) [Fin (- (1 / 100)), Fin (1 / 100)] \<noteq> Fin 0"
proof
  show "summary_sharpe series_std series_mean [Fin (- (1 / 100)), Fin (1 / 100)] = Fin 0"
    by (simp add: summary_sharpe_def series_std_def series_mean_def dropna_def np_sum_def
                  np_sub_def np_eq_def Let_def)
next
  have "0 < (1 + 2 / 100) powr (1 / 252) - (1::real)" by (rule daily_rf_pos)
  then show "sharpe_spec series_std series_mean (2 / 100) [Fin (- (1 / 100)), Fin (1 / 100)]
               \<noteq> Fin 0"
    unfolding ex_sharpe_value by simp
qed

end
